theory Spec2Isabelle
  imports Main "HOL-Library.Word"
begin

unbundle bit_operations_syntax

section \<open>Python values used by \<^verbatim>\<open>antispam/libs/hikari.py\<close>\<close>

text \<open>
  A Python \<^verbatim>\<open>str\<close> is a sequence of Unicode code points, so it is a list of naturals
  here (a HOL \<^typ>\<open>char\<close> is one byte and cannot hold U+200B). ASCII literals of the source
  are written \<open>u ''...''\<close>.
\<close>

type_synonym pystr = "nat list"

definition u :: "string \<Rightarrow> pystr" where
  "u s = map of_char s"

text \<open>\<^verbatim>\<open>str(n)\<close> for an integer: decimal digits, with a minus sign when negative.\<close>

fun digits :: "nat \<Rightarrow> pystr" where
  "digits n = (if n < 10 then [48 + n] else digits (n div 10) @ [48 + n mod 10])"

definition str_int :: "int \<Rightarrow> pystr" where
  "str_int i = (if i < 0 then 45 # digits (nat (- i)) else digits (nat i))"

text \<open>
  \<^verbatim>\<open>s.replace(old, new)\<close>: every non-overlapping occurrence of \<open>old\<close>, found from the
  left, is replaced. For an empty \<open>old\<close> Python puts \<open>new\<close> before every character and at
  the end.
\<close>

function replace_from :: "pystr \<Rightarrow> pystr \<Rightarrow> pystr \<Rightarrow> pystr" where
  "replace_from old new s =
     (if old = [] \<or> s = [] then s
      else if take (length old) s = old
        then new @ replace_from old new (drop (length old) s)
        else hd s # replace_from old new (tl s))"
  by pat_completeness auto
termination
  by (relation "measure (\<lambda>(old, new, s). length s)") auto

definition replace :: "pystr \<Rightarrow> pystr \<Rightarrow> pystr \<Rightarrow> pystr" where
  "replace s old new =
     (if old = [] then new @ concat (map (\<lambda>c. c # new) s) else replace_from old new s)"

text \<open>
  \<^verbatim>\<open>str.isspace\<close> on one code point (the code points Python treats as whitespace) and
  \<^verbatim>\<open>s.strip()\<close>.
\<close>

definition isspace :: "nat \<Rightarrow> bool" where
  "isspace c \<longleftrightarrow>
     (9 \<le> c \<and> c \<le> 13) \<or> (28 \<le> c \<and> c \<le> 32) \<or> c = 133 \<or> c = 160 \<or> c = 5760 \<or>
     (8192 \<le> c \<and> c \<le> 8202) \<or> c = 8232 \<or> c = 8233 \<or> c = 8239 \<or> c = 8287 \<or> c = 12288"

definition strip :: "pystr \<Rightarrow> pystr" where
  "strip s = rev (dropWhile isspace (rev (dropWhile isspace s)))"

text \<open>
  The exceptions that can leave the functions of the file: the HTTP errors of the chat
  library, the three exceptions of the package itself, and the built-in exceptions raised
  by attribute access on \<^verbatim>\<open>None\<close>, by a missing dictionary key, by an operation on a
  value of the wrong type and by \<^verbatim>\<open>ast.literal_eval\<close>.
\<close>

datatype error =
    UnauthorizedError
  | ForbiddenError
  | NotFoundError
  | RateLimitTooLongError
  | InternalServerError
  | BadRequestError
  | PropagateFailure pystr
  | LogicError
  | MissingGuildPermissions pystr
  | AttributeError
  | KeyError
  | TypeError
  | SyntaxError
  | ValueError

section \<open>Data model\<close>

text \<open>
  An embed is represented by the mapping that \<^verbatim>\<open>entity_factory.serialize_embed\<close> gives
  and that \<^verbatim>\<open>entity_factory.deserialize_embed\<close> takes: the source only ever indexes that
  mapping. An absent key is \<open>None\<close>.
\<close>

record embed_footer =
  footer_text :: "pystr option"
  footer_icon_url :: "pystr option"

record embed_author =
  author_name :: "pystr option"
  author_icon_url :: "pystr option"

record embed_field =
  field_name :: "pystr option"
  field_value :: "pystr option"
  field_inline :: "bool option"

record embed_data =
  e_title :: "pystr option"
  e_description :: "pystr option"
  e_footer :: "embed_footer option"
  e_author :: "embed_author option"
  e_fields :: "embed_field list option"
  e_timestamp :: "pystr option"
  e_colour :: "int option"
  e_color :: "int option"
  e_type :: "pystr option"

text \<open>An element of \<^verbatim>\<open>message.embeds\<close>: an \<^verbatim>\<open>embeds.Embed\<close> or some other object.\<close>

datatype embed_obj = Embed embed_data | NotAnEmbed

text \<open>What is sent to a user or a channel: a string or an embed.\<close>

datatype outgoing = Text pystr | EmbedMsg embed_data

text \<open>A configured message template (\<^verbatim>\<open>Union[str, dict]\<close>).\<close>

datatype template = TStr pystr | TDict embed_data

text \<open>An item of an ignore list: an identifier or a display name.\<close>

datatype pykey = KInt int | KStr pystr

record user =
  user_id :: int
  username :: pystr
  mention :: pystr
  is_bot :: bool
  avatar_url :: pystr

record channel =
  chan_id :: int
  chan_name :: "pystr option"

text \<open>
  The platform message (\<^verbatim>\<open>hikari.messages.Message\<close>). \<open>h_fetch_channel\<close> is the outcome
  of \<^verbatim>\<open>await message.fetch_channel()\<close>, \<open>h_created_at\<close> is
  \<^verbatim>\<open>message.created_at.isoformat()\<close>.
\<close>

record hmessage =
  h_id :: int
  h_channel_id :: int
  h_guild_id :: "int option"
  h_author :: user
  h_content :: "pystr option"
  h_embeds :: "embed_obj list"
  h_created_at :: pystr
  h_fetch_channel :: "error + channel"

text \<open>The package's own \<^verbatim>\<open>Message\<close> dataclass.\<close>

record Message =
  message_id :: int
  message_channel_id :: int
  message_guild_id :: "int option"
  message_author_id :: int
  message_content :: pystr

text \<open>The handler's options that the file reads.\<close>

record options =
  ignore_bots :: bool
  ignored_members :: "int set"
  ignored_channels :: "pykey set"
  ignored_roles :: "pykey set"
  ignored_guilds :: "int set"
  delete_zero_width_chars :: bool
  member_failed_kick_message :: template
  member_failed_ban_message :: template

section \<open>Entity normalizer: \<^verbatim>\<open>embed_to_string\<close> and \<^verbatim>\<open>create_message\<close>\<close>

text \<open>
  \<^verbatim>\<open>embed['author']['name']\<close>, \<^verbatim>\<open>field['name']\<close> and \<^verbatim>\<open>field['value']\<close> are
  indexed without a test, so an absent key raises \<^verbatim>\<open>KeyError\<close>.
\<close>

definition index_key :: "'a option \<Rightarrow> error + 'a" where
  "index_key v = (case v of None \<Rightarrow> Inl KeyError | Some x \<Rightarrow> Inr x)"

fun fields_to_string :: "embed_field list \<Rightarrow> error + pystr" where
  "fields_to_string [] = Inr []"
| "fields_to_string (f # fs) =
     (case index_key (field_name f) of Inl e \<Rightarrow> Inl e
      | Inr n \<Rightarrow>
     (case index_key (field_value f) of Inl e \<Rightarrow> Inl e
      | Inr v \<Rightarrow>
     (case fields_to_string fs of Inl e \<Rightarrow> Inl e
      | Inr rest \<Rightarrow> Inr (n @ [10] @ v @ [10] @ rest))))"

definition embed_to_string :: "embed_data \<Rightarrow> error + pystr" where
  "embed_to_string em =
     (let content = [];
          content = (case e_title em of None \<Rightarrow> content | Some t \<Rightarrow> content @ t @ [10]);
          content = (case e_description em of None \<Rightarrow> content | Some d \<Rightarrow> content @ d @ [10]);
          content = (case e_footer em of None \<Rightarrow> content
                     | Some ft \<Rightarrow> (case footer_text ft of None \<Rightarrow> content
                                   | Some t \<Rightarrow> content @ t @ [10]))
      in case (case e_author em of None \<Rightarrow> Inr content
               | Some a \<Rightarrow> (case index_key (author_name a) of Inl e \<Rightarrow> Inl e
                             | Inr n \<Rightarrow> Inr (content @ n @ [10]))) of
           Inl e \<Rightarrow> Inl e
         | Inr content \<Rightarrow>
             (case e_fields em of None \<Rightarrow> Inr content
              | Some fs \<Rightarrow> (case fields_to_string fs of Inl e \<Rightarrow> Inl e
                            | Inr r \<Rightarrow> Inr (content @ r))))"

text \<open>
  \<^verbatim>\<open>bool(message.content and message.content.strip())\<close>: false for \<^verbatim>\<open>None\<close>, for the
  empty string and for a string of whitespace only.
\<close>

definition has_text :: "pystr option \<Rightarrow> bool" where
  "has_text c = (case c of None \<Rightarrow> False | Some s \<Rightarrow> s \<noteq> [] \<and> strip s \<noteq> [])"

text \<open>
  The six replacements of \<^verbatim>\<open>create_message\<close>. The source writes the search strings as
  \<^verbatim>\<open>"u200B"\<close>, ..., \<^verbatim>\<open>"uFEFF"\<close>: five ASCII characters each, with no backslash.
\<close>

definition delete_zero_width :: "pystr \<Rightarrow> pystr" where
  "delete_zero_width content =
     replace (replace (replace (replace (replace (replace content
       (u ''u200B'') []) (u ''u200C'') []) (u ''u200D'') []) (u ''u200E'') [])
       (u ''u200F'') []) (u ''uFEFF'') []"

definition create_message :: "options \<Rightarrow> hmessage \<Rightarrow> error + Message" where
  "create_message opts message =
     (case (if \<not> has_text (h_content message) then
              (case h_embeds message of
                 [] \<Rightarrow> Inl LogicError
               | NotAnEmbed # _ \<Rightarrow> Inl LogicError
               | Embed em # _ \<Rightarrow> embed_to_string em)
            else Inr (the (h_content message))) of
        Inl e \<Rightarrow> Inl e
      | Inr content \<Rightarrow>
          Inr \<lparr> message_id = h_id message,
                message_channel_id = h_channel_id message,
                message_guild_id = h_guild_id message,
                message_author_id = user_id (h_author message),
                message_content =
                  (if delete_zero_width_chars opts then delete_zero_width content
                   else content) \<rparr>)"

text \<open>The zero-width and invisible code points U+200B to U+200F and U+FEFF.\<close>

definition zero_width_chars :: "nat set" where
  "zero_width_chars = {0x200B, 0x200C, 0x200D, 0x200E, 0x200F, 0xFEFF}"

section \<open>The handler's environment\<close>

record role =
  role_name :: pystr
  role_permissions :: nat

text \<open>
  A guild member of the chat library (\<^verbatim>\<open>hikari.guilds.Member\<close>). \<open>gm_fetch_roles\<close> is
  the outcome of \<^verbatim>\<open>await member.fetch_roles()\<close>.
\<close>

record guild_member =
  gm_id :: int
  gm_username :: pystr
  gm_avatar_url :: pystr
  gm_role_ids :: "int list"
  gm_fetch_roles :: "error + role list"

text \<open>A cached guild: \<^verbatim>\<open>guild.get_member(id)\<close> and \<^verbatim>\<open>guild.get_my_member()\<close> may give \<^verbatim>\<open>None\<close>.\<close>

record hguild =
  g_name :: pystr
  g_owner_id :: int
  g_icon_url :: pystr
  g_get_member :: "int \<Rightarrow> guild_member option"
  g_get_my_member :: "guild_member option"

text \<open>
  \<^verbatim>\<open>self.handler\<close>: the bot (\<^verbatim>\<open>get_me\<close>, \<^verbatim>\<open>cache.get_guild\<close>), the options, and the two
  renderings of \<^verbatim>\<open>datetime.datetime.now()\<close> that \<^verbatim>\<open>substitute_args\<close> asks for.
\<close>

record env =
  get_me :: "user option"
  get_guild :: "int \<Rightarrow> hguild option"
  opts :: options
  timestamp_now :: pystr
  timestamp_today :: pystr

definition lookup_guild :: "env \<Rightarrow> int option \<Rightarrow> hguild option" where
  "lookup_guild e gid = (case gid of None \<Rightarrow> None | Some i \<Rightarrow> get_guild e i)"

definition then_do :: "error + 'a \<Rightarrow> ('a \<Rightarrow> error + 'b) \<Rightarrow> error + 'b" where
  "then_do r f = (case r of Inl e \<Rightarrow> Inl e | Inr x \<Rightarrow> f x)"

section \<open>Permission resolver: \<^verbatim>\<open>_get_perms\<close>\<close>

text \<open>
  \<^verbatim>\<open>Permissions\<close> is an integer flag enumeration of the chat library; the three members
  the file names have the values of the platform's permission bits.
\<close>

type_synonym permissions = nat

definition NONE :: permissions where "NONE = 0"
definition KICK_MEMBERS :: permissions where "KICK_MEMBERS = 2"
definition BAN_MEMBERS :: permissions where "BAN_MEMBERS = 4"

text \<open>Whether a permission set contains a capability (\<^verbatim>\<open>perms & Permissions.X\<close>).\<close>

definition has_capability :: "permissions \<Rightarrow> permissions \<Rightarrow> bool" where
  "has_capability perms cap \<longleftrightarrow> perms AND cap = cap"

definition get_perms :: "guild_member option \<Rightarrow> error + permissions" where
  "get_perms member =
     (case member of
        None \<Rightarrow> Inl AttributeError
      | Some m \<Rightarrow>
          (case gm_fetch_roles m of
             Inl e \<Rightarrow> Inl e
           | Inr roles \<Rightarrow> Inr (fold (\<lambda>r perms. perms OR role_permissions r) roles NONE)))"

text \<open>
  The source tests the result with \<^verbatim>\<open>perms.KICK_MEMBERS\<close> and \<^verbatim>\<open>perms.BAN_MEMBERS\<close>.
  \<^verbatim>\<open>KICK_MEMBERS\<close> and \<^verbatim>\<open>BAN_MEMBERS\<close> are members of the enumeration, that is attributes
  of the class; read through an instance, such an attribute is the member itself, whatever
  the instance holds. Truth of a flag is truth of its integer, and \<^verbatim>\<open>a and b\<close> is \<open>a\<close>
  when \<open>a\<close> is false and \<open>b\<close> otherwise.
\<close>

definition attr_KICK_MEMBERS :: "permissions \<Rightarrow> permissions" where
  "attr_KICK_MEMBERS perms = KICK_MEMBERS"

definition attr_BAN_MEMBERS :: "permissions \<Rightarrow> permissions" where
  "attr_BAN_MEMBERS perms = BAN_MEMBERS"

definition truthy :: "permissions \<Rightarrow> bool" where
  "truthy p \<longleftrightarrow> p \<noteq> 0"

definition py_and :: "permissions \<Rightarrow> permissions \<Rightarrow> permissions" where
  "py_and a b = (if truthy a then b else a)"

section \<open>Template engine\<close>

text \<open>
  \<^verbatim>\<open>string.Template\<close>: the pattern matches, at a \<^verbatim>\<open>$\<close>, the escape \<^verbatim>\<open>$$\<close>, a name
  \<^verbatim>\<open>$identifier\<close>, a braced name \<^verbatim>\<open>${identifier}\<close>, or else the lone delimiter (the
  group \<^verbatim>\<open>invalid\<close>), tried in this order; an identifier is \<^verbatim>\<open>[_a-z][_a-z0-9]*\<close>,
  ASCII only, letters in either case. The text between matches is copied.
\<close>

datatype token = Lit nat | Escaped | Named pystr | Braced pystr | Invalid

definition is_id_start :: "nat \<Rightarrow> bool" where
  "is_id_start c \<longleftrightarrow> c = 95 \<or> (65 \<le> c \<and> c \<le> 90) \<or> (97 \<le> c \<and> c \<le> 122)"

definition is_id_char :: "nat \<Rightarrow> bool" where
  "is_id_char c \<longleftrightarrow> is_id_start c \<or> (48 \<le> c \<and> c \<le> 57)"

definition starts_escaped :: "pystr \<Rightarrow> bool" where
  "starts_escaped cs \<longleftrightarrow> cs \<noteq> [] \<and> hd cs = 36"

definition starts_named :: "pystr \<Rightarrow> bool" where
  "starts_named cs \<longleftrightarrow> cs \<noteq> [] \<and> is_id_start (hd cs)"

definition starts_braced :: "pystr \<Rightarrow> bool" where
  "starts_braced cs \<longleftrightarrow>
     cs \<noteq> [] \<and> hd cs = 123 \<and> tl cs \<noteq> [] \<and> is_id_start (hd (tl cs)) \<and>
     dropWhile is_id_char (tl cs) \<noteq> [] \<and> hd (dropWhile is_id_char (tl cs)) = 125"

function tokenize :: "pystr \<Rightarrow> token list" where
  "tokenize [] = []"
| "tokenize (c # cs) =
     (if c \<noteq> 36 then Lit c # tokenize cs
      else if starts_escaped cs then Escaped # tokenize (tl cs)
      else if starts_named cs
        then Named (takeWhile is_id_char cs) # tokenize (dropWhile is_id_char cs)
      else if starts_braced cs
        then Braced (takeWhile is_id_char (tl cs)) # tokenize (tl (dropWhile is_id_char (tl cs)))
      else Invalid # tokenize cs)"
  by pat_completeness auto
termination
proof (relation "measure length")
  fix c :: nat and cs :: pystr
  have le: "length (dropWhile is_id_char xs) \<le> length xs" for xs :: pystr
    by (rule length_dropWhile_le)
  show "(dropWhile is_id_char cs, c # cs) \<in> measure length"
    using le [of cs] by simp
  have "length (tl (dropWhile is_id_char (tl cs))) \<le> length (dropWhile is_id_char (tl cs))"
    by simp
  also have "\<dots> \<le> length (tl cs)" by (rule le)
  also have "\<dots> \<le> length cs" by simp
  finally show "(tl (dropWhile is_id_char (tl cs)), c # cs) \<in> measure length"
    by simp
qed simp_all

text \<open>\<^verbatim>\<open>mo.group()\<close>: the text a match was read from.\<close>

fun matched :: "token \<Rightarrow> pystr" where
  "matched (Lit c) = [c]"
| "matched Escaped = [36, 36]"
| "matched (Named n) = 36 # n"
| "matched (Braced n) = 36 # 123 # n @ [125]"
| "matched Invalid = [36]"

text \<open>
  \<^verbatim>\<open>convert\<close> of \<^verbatim>\<open>safe_substitute\<close>: a name of the mapping gives its value, any other
  name the matched text; the escape gives one delimiter.
\<close>

fun convert :: "(pystr \<Rightarrow> pystr option) \<Rightarrow> token \<Rightarrow> pystr" where
  "convert m (Lit c) = [c]"
| "convert m Escaped = [36]"
| "convert m (Named n) = (case m n of Some v \<Rightarrow> v | None \<Rightarrow> matched (Named n))"
| "convert m (Braced n) = (case m n of Some v \<Rightarrow> v | None \<Rightarrow> matched (Braced n))"
| "convert m Invalid = matched Invalid"

definition safe_substitute :: "(pystr \<Rightarrow> pystr option) \<Rightarrow> pystr \<Rightarrow> pystr" where
  "safe_substitute m s = concat (map (convert m) (tokenize s))"

definition str_opt_int :: "int option \<Rightarrow> pystr" where
  "str_opt_int v = (case v of None \<Rightarrow> u ''None'' | Some i \<Rightarrow> str_int i)"

text \<open>The mapping of \<^verbatim>\<open>substitute_args\<close>, each value as \<^verbatim>\<open>str\<close> renders it.\<close>

definition token_table ::
  "env \<Rightarrow> hguild \<Rightarrow> guild_member \<Rightarrow> hmessage \<Rightarrow> int \<Rightarrow> int \<Rightarrow> (pystr \<times> pystr) list" where
  "token_table e guild me original_message warn_count kick_count =
     [ (u ''MENTIONUSER'', mention (h_author original_message)),
       (u ''USERNAME'', username (h_author original_message)),
       (u ''USERID'', str_int (user_id (h_author original_message))),
       (u ''BOTNAME'', gm_username me),
       (u ''BOTID'', str_int (gm_id me)),
       (u ''GUILDID'', str_opt_int (h_guild_id original_message)),
       (u ''GUILDNAME'', g_name guild),
       (u ''TIMESTAMPNOW'', timestamp_now e),
       (u ''TIMESTAMPTODAY'', timestamp_today e),
       (u ''WARNCOUNT'', str_int warn_count),
       (u ''KICKCOUNT'', str_int kick_count),
       (u ''USERAVATAR'', avatar_url (h_author original_message)),
       (u ''BOTAVATAR'', gm_avatar_url me),
       (u ''GUILDICON'', g_icon_url guild) ]"

definition recognized_tokens :: "pystr list" where
  "recognized_tokens =
     [ u ''MENTIONUSER'', u ''USERNAME'', u ''USERID'', u ''BOTNAME'', u ''BOTID'',
       u ''GUILDID'', u ''GUILDNAME'', u ''TIMESTAMPNOW'', u ''TIMESTAMPTODAY'',
       u ''WARNCOUNT'', u ''KICKCOUNT'', u ''USERAVATAR'', u ''BOTAVATAR'', u ''GUILDICON'' ]"

text \<open>
  \<^verbatim>\<open>substitute_args\<close>. The guild comes from the cache and the bot's member from the
  guild; either may be \<^verbatim>\<open>None\<close>, and the attribute access that follows then raises
  \<^verbatim>\<open>AttributeError\<close>.
\<close>

definition substitute_args :: "env \<Rightarrow> pystr \<Rightarrow> hmessage \<Rightarrow> int \<Rightarrow> int \<Rightarrow> error + pystr" where
  "substitute_args e message original_message warn_count kick_count =
     (case lookup_guild e (h_guild_id original_message) of
        None \<Rightarrow> Inl AttributeError
      | Some guild \<Rightarrow>
          (case g_get_my_member guild of
             None \<Rightarrow> Inl AttributeError
           | Some me \<Rightarrow>
               Inr (safe_substitute
                      (map_of (token_table e guild me original_message warn_count kick_count))
                      message)))"

text \<open>
  A string whose only template constructs are names outside the table: every match of
  the pattern in it is a name or braced name that the table lacks, or a lone delimiter;
  it has no escape \<^verbatim>\<open>$$\<close>.
\<close>

definition unknown_token :: "token \<Rightarrow> bool" where
  "unknown_token t =
     (case t of Named n \<Rightarrow> n \<notin> set recognized_tokens
      | Braced n \<Rightarrow> n \<notin> set recognized_tokens
      | Escaped \<Rightarrow> False
      | _ \<Rightarrow> True)"

definition only_unknown_tokens :: "pystr \<Rightarrow> bool" where
  "only_unknown_tokens s = list_all unknown_token (tokenize s)"

text \<open>
  \<^verbatim>\<open>dict_to_embed\<close> on a mapping whose values have the types of the embed schema. The
  source updates the mapping in place and hands it to \<^verbatim>\<open>deserialize_embed\<close>; the model
  returns the updated mapping.
\<close>

definition allowed_avatars :: "pystr list" where
  "allowed_avatars = [u ''$USERAVATAR'', u ''$BOTAVATAR'', u ''$GUILDICON'']"

definition sub_present :: "(pystr \<Rightarrow> error + pystr) \<Rightarrow> pystr option \<Rightarrow> error + pystr option" where
  "sub_present sub v =
     (case v of None \<Rightarrow> Inr None | Some t \<Rightarrow> then_do (sub t) (\<lambda>t'. Inr (Some t')))"

definition sub_icon :: "(pystr \<Rightarrow> error + pystr) \<Rightarrow> pystr option \<Rightarrow> error + pystr option" where
  "sub_icon sub v =
     (case v of None \<Rightarrow> Inr None
      | Some t \<Rightarrow> if t \<in> set allowed_avatars then then_do (sub t) (\<lambda>t'. Inr (Some t'))
                  else Inr (Some t))"

definition footer_to_embed :: "(pystr \<Rightarrow> error + pystr) \<Rightarrow> embed_footer \<Rightarrow> error + embed_footer" where
  "footer_to_embed sub ft =
     then_do (sub_present sub (footer_text ft)) (\<lambda>t.
     then_do (sub_icon sub (footer_icon_url ft)) (\<lambda>i.
     Inr \<lparr> footer_text = t, footer_icon_url = i \<rparr>))"

definition author_to_embed :: "(pystr \<Rightarrow> error + pystr) \<Rightarrow> embed_author \<Rightarrow> error + embed_author" where
  "author_to_embed sub a =
     then_do (index_key (author_name a)) (\<lambda>n.
     then_do (sub n) (\<lambda>n'.
     then_do (sub_icon sub (author_icon_url a)) (\<lambda>i.
     Inr \<lparr> author_name = Some n', author_icon_url = i \<rparr>)))"

definition field_to_embed :: "(pystr \<Rightarrow> error + pystr) \<Rightarrow> embed_field \<Rightarrow> error + embed_field" where
  "field_to_embed sub f =
     then_do (index_key (field_name f)) (\<lambda>n.
     then_do (sub n) (\<lambda>n'.
     then_do (index_key (field_value f)) (\<lambda>v.
     then_do (sub v) (\<lambda>v'.
     Inr \<lparr> field_name = Some n', field_value = Some v',
           field_inline = (case field_inline f of None \<Rightarrow> Some True | Some b \<Rightarrow> Some b) \<rparr>))))"

fun fields_to_embed :: "(pystr \<Rightarrow> error + pystr) \<Rightarrow> embed_field list \<Rightarrow> error + embed_field list" where
  "fields_to_embed sub [] = Inr []"
| "fields_to_embed sub (f # fs) =
     then_do (field_to_embed sub f) (\<lambda>f'.
     then_do (fields_to_embed sub fs) (\<lambda>fs'. Inr (f' # fs')))"

definition on_present :: "('a \<Rightarrow> error + 'a) \<Rightarrow> 'a option \<Rightarrow> error + 'a option" where
  "on_present f v = (case v of None \<Rightarrow> Inr None | Some x \<Rightarrow> then_do (f x) (\<lambda>y. Inr (Some y)))"

definition dict_to_embed :: "env \<Rightarrow> embed_data \<Rightarrow> hmessage \<Rightarrow> int \<Rightarrow> int \<Rightarrow> error + embed_data" where
  "dict_to_embed e data message warn_count kick_count =
     (let sub = (\<lambda>t. substitute_args e t message warn_count kick_count) in
      then_do (sub_present sub (e_title data)) (\<lambda>title.
      then_do (sub_present sub (e_description data)) (\<lambda>description.
      then_do (on_present (footer_to_embed sub) (e_footer data)) (\<lambda>footer.
      then_do (on_present (author_to_embed sub) (e_author data)) (\<lambda>author.
      then_do (on_present (fields_to_embed sub) (e_fields data)) (\<lambda>fields.
      Inr \<lparr> e_title = title, e_description = description, e_footer = footer,
            e_author = author, e_fields = fields,
            e_timestamp = (case e_timestamp data of None \<Rightarrow> None
                           | Some _ \<Rightarrow> Some (h_created_at message)),
            e_colour = e_colour data,
            e_color = (case e_colour data of None \<Rightarrow> e_color data | Some c \<Rightarrow> Some c),
            e_type = Some (u ''rich'') \<rparr>))))))"

text \<open>
  The argument of \<^verbatim>\<open>transform_message\<close>: a string, a mapping, or a value that is neither
  (\<^verbatim>\<open>ast.literal_eval\<close> gives a set or a tuple for \<^verbatim>\<open>"{1}"\<close> or \<^verbatim>\<open>"{}, 1"\<close>). On such a
  value \<^verbatim>\<open>dict_to_embed\<close> raises \<^verbatim>\<open>TypeError\<close> at the first subscript, at the latest at
  \<^verbatim>\<open>data["type"] = "rich"\<close>.
\<close>

datatype item = IStr pystr | IDict embed_data | IOther

definition transform_message :: "env \<Rightarrow> item \<Rightarrow> hmessage \<Rightarrow> int \<Rightarrow> int \<Rightarrow> error + outgoing" where
  "transform_message e it message warn_count kick_count =
     (case it of
        IStr s \<Rightarrow> then_do (substitute_args e s message warn_count kick_count) (\<lambda>t. Inr (Text t))
      | IDict d \<Rightarrow> then_do (dict_to_embed e d message warn_count kick_count) (\<lambda>em. Inr (EmbedMsg em))
      | IOther \<Rightarrow> Inl TypeError)"

definition item_of_template :: "template \<Rightarrow> item" where
  "item_of_template t = (case t of TStr s \<Rightarrow> IStr s | TDict d \<Rightarrow> IDict d)"

text \<open>
  \<^verbatim>\<open>visualizer\<close>. \<^verbatim>\<open>ast.literal_eval\<close> belongs to the language's library; as for the
  remote calls, the outcome of the call is an input (\<open>parsed\<close>, read only when the
  content starts with a brace): the value, or the exception raised, which for a string
  that is not a literal is \<^verbatim>\<open>SyntaxError\<close> or \<^verbatim>\<open>ValueError\<close>. The source has no handler
  around the call.
\<close>

definition startswith :: "pystr \<Rightarrow> pystr \<Rightarrow> bool" where
  "startswith s p \<longleftrightarrow> take (length p) s = p"

definition visualizer ::
  "error + item \<Rightarrow> env \<Rightarrow> pystr \<Rightarrow> hmessage \<Rightarrow> int \<Rightarrow> int \<Rightarrow> error + outgoing" where
  "visualizer parsed e content message warn_count kick_count =
     (if startswith content (u ''{'')
      then then_do parsed (\<lambda>literal. transform_message e literal message warn_count kick_count)
      else transform_message e (IStr content) message warn_count kick_count)"

text \<open>The exceptions of the parser, and the exceptions the package defines.\<close>

fun parser_exception :: "error \<Rightarrow> bool" where
  "parser_exception SyntaxError = True"
| "parser_exception ValueError = True"
| "parser_exception _ = False"

fun package_error :: "error \<Rightarrow> bool" where
  "package_error (PropagateFailure _) = True"
| "package_error LogicError = True"
| "package_error (MissingGuildPermissions _) = True"
| "package_error _ = False"

section \<open>Eligibility filter: \<^verbatim>\<open>check_message_can_be_propagated\<close>\<close>

text \<open>
  The result of the filter. \<open>has_perms_to_make_guild\<close> holds the value the source
  computes for it, a \<^verbatim>\<open>Permissions\<close> flag; it counts as true when \<open>truthy\<close>.
\<close>

record PropagateData =
  pd_guild_id :: "int option"
  pd_member_name :: pystr
  pd_member_id :: int
  has_perms_to_make_guild :: permissions

text \<open>The argument is a platform message or some other object (the \<^verbatim>\<open>isinstance\<close> test).\<close>

datatype incoming = IsMessage hmessage | NotMessage

text \<open>\<^verbatim>\<open>not message.guild_id\<close>: true for \<^verbatim>\<open>None\<close> and for 0.\<close>

definition no_guild_id :: "int option \<Rightarrow> bool" where
  "no_guild_id g = (case g of None \<Rightarrow> True | Some i \<Rightarrow> i = 0)"

definition str_key :: "pykey \<Rightarrow> pystr" where
  "str_key k = (case k of KInt i \<Rightarrow> str_int i | KStr s \<Rightarrow> s)"

text \<open>
  The ignored-role step. \<^verbatim>\<open>AttributeError\<close> inside the \<^verbatim>\<open>try\<close> is caught and the step
  passes; any other error of \<^verbatim>\<open>fetch_roles\<close> leaves the function; the first item of
  \<^verbatim>\<open>user_roles\<close> found in the ignore list rejects.
\<close>

definition check_ignored_roles :: "options \<Rightarrow> guild_member \<Rightarrow> error option" where
  "check_ignored_roles os member =
     (case gm_fetch_roles member of
        Inl err \<Rightarrow> if err = AttributeError then None else Some err
      | Inr roles \<Rightarrow>
          (case filter (\<lambda>it. it \<in> ignored_roles os)
                  (map KInt (gm_role_ids member) @ map (\<lambda>r. KStr (role_name r)) roles) of
             [] \<Rightarrow> None
           | it # _ \<Rightarrow> Some (PropagateFailure (u ''Ignoring this role: '' @ str_key it))))"

definition ignored_member_status :: "hmessage \<Rightarrow> pystr" where
  "ignored_member_status message =
     u ''Ignoring this member: '' @ str_int (user_id (h_author message))"

definition ignored_channel_status :: "hmessage \<Rightarrow> pystr" where
  "ignored_channel_status message =
     u ''Ignoring this channel: '' @ str_int (h_channel_id message)"

definition channel_is_ignored :: "options \<Rightarrow> hmessage \<Rightarrow> channel \<Rightarrow> bool" where
  "channel_is_ignored os message ch \<longleftrightarrow>
     KInt (h_channel_id message) \<in> ignored_channels os \<or>
     (case chan_name ch of None \<Rightarrow> False | Some n \<Rightarrow> KStr n \<in> ignored_channels os)"

text \<open>The steps after the ignored-member test, from \<^verbatim>\<open>message.fetch_channel()\<close> on.\<close>

definition check_from_channel ::
  "env \<Rightarrow> hmessage \<Rightarrow> hguild \<Rightarrow> guild_member \<Rightarrow> error + PropagateData" where
  "check_from_channel e message guild member =
     (case h_fetch_channel message of
        Inl err \<Rightarrow> Inl err
      | Inr ch \<Rightarrow>
          if channel_is_ignored (opts e) message ch
          then Inl (PropagateFailure (ignored_channel_status message))
          else (case check_ignored_roles (opts e) member of
                  Some err \<Rightarrow> Inl err
                | None \<Rightarrow>
                    if (case h_guild_id message of None \<Rightarrow> False
                        | Some i \<Rightarrow> i \<in> ignored_guilds (opts e))
                    then Inl (PropagateFailure
                                (u ''Ignoring this guild: '' @ str_opt_int (h_guild_id message)))
                    else then_do (get_perms (g_get_my_member guild)) (\<lambda>perms.
                         Inr \<lparr> pd_guild_id = h_guild_id message,
                               pd_member_name = username (h_author message),
                               pd_member_id = user_id (h_author message),
                               has_perms_to_make_guild =
                                 py_and (attr_KICK_MEMBERS perms) (attr_BAN_MEMBERS perms) \<rparr>)))"

definition check_message_can_be_propagated :: "env \<Rightarrow> incoming \<Rightarrow> error + PropagateData" where
  "check_message_can_be_propagated e inc =
     (case inc of
        NotMessage \<Rightarrow> Inl (PropagateFailure (u ''Expected message of type messages.Message''))
      | IsMessage message \<Rightarrow>
          if no_guild_id (h_guild_id message)
          then Inl (PropagateFailure (u ''Ignoring messages from dm'' @ [39] @ u ''s''))
          else (case get_me e of
                  None \<Rightarrow> Inl AttributeError
                | Some me \<Rightarrow>
                    if user_id (h_author message) = user_id me
                    then Inl (PropagateFailure (u ''Ignoring messages from myself (the bot)''))
                    else (case lookup_guild e (h_guild_id message) of
                            None \<Rightarrow> Inl AttributeError
                          | Some guild \<Rightarrow>
                              (case g_get_member guild (user_id (h_author message)) of
                                 None \<Rightarrow>
                                   Inl (PropagateFailure
                                     (u ''Idk how to fetch members, so this is returning since cache lookup failed. Please open a github issue.''))
                               | Some member \<Rightarrow>
                                   if ignore_bots (opts e) \<and> is_bot (h_author message)
                                   then Inl (PropagateFailure (u ''Ignoring messages from bots''))
                                   else if user_id (h_author message) \<in> ignored_members (opts e)
                                   then Inl (PropagateFailure (ignored_member_status message))
                                   else check_from_channel e message guild member))))"

text \<open>
  The checks that precede the ignored-member test all pass: a guild message, not written
  by the bot, whose author is in the guild's member cache and is not an ignored bot.
\<close>

definition reaches_member_check :: "env \<Rightarrow> hmessage \<Rightarrow> bool" where
  "reaches_member_check e message \<longleftrightarrow>
     \<not> no_guild_id (h_guild_id message) \<and>
     (case get_me e of None \<Rightarrow> False
      | Some me \<Rightarrow> user_id (h_author message) \<noteq> user_id me) \<and>
     (case lookup_guild e (h_guild_id message) of None \<Rightarrow> False
      | Some guild \<Rightarrow> g_get_member guild (user_id (h_author message)) \<noteq> None) \<and>
     \<not> (ignore_bots (opts e) \<and> is_bot (h_author message))"

section \<open>Punishment executor: \<^verbatim>\<open>send_guild_log\<close> and \<^verbatim>\<open>punish_member\<close>\<close>

text \<open>
  The package's \<^verbatim>\<open>Message\<close> as stored in a member's record carries the duplicate flag;
  \<^verbatim>\<open>Member\<close> and \<^verbatim>\<open>Guild\<close> are the package's dataclasses (\<open>in_guild\<close> is the
  attribute \<^verbatim>\<open>_in_guild\<close>).
\<close>

record stored_message = Message +
  is_duplicate :: bool

record Member =
  member_id :: int
  warn_count :: int
  kick_count :: int
  in_guild :: bool
  messages :: "stored_message list"

record Guild =
  guild_id :: int
  log_channel_id :: "int option"

text \<open>
  What the function does to the outside, in order. \<open>Guild_log\<close> records a call of
  \<^verbatim>\<open>send_guild_log\<close> with its message; the other events are calls to the platform
  (recorded when made, whatever their outcome) and the write to the member cache.
\<close>

datatype event =
    User_send int outgoing
  | Sleep int
  | Delete_sent
  | Guild_log outgoing
  | Channel_send int outgoing
  | Delete_log
  | Kick int
  | Ban int
  | Set_member Member

text \<open>
  The outcome of every remote call is an input. Each call site of \<^verbatim>\<open>punish_member\<close>
  runs at most once in an attempt, so one outcome per call site covers every behaviour
  of the platform; \<open>None\<close> is success.
\<close>

record log_outcome =
  lo_fetch_channel :: "error + channel"
  lo_send :: "error option"
  lo_delete :: "error option"

record remote =
  r_fetch_channel :: "error + channel"
  r_user_send :: "error option"
  r_delete_after :: "error option"
  r_log_notify_failed :: log_outcome
  r_punish :: "error option"
  r_log_punish_failed :: log_outcome
  r_log_failed_message :: log_outcome
  r_retract :: "error option"
  r_log_success :: log_outcome

text \<open>\<^verbatim>\<open>if delete_after_time:\<close> is false for \<^verbatim>\<open>None\<close> and for 0.\<close>

definition no_delay :: "int option \<Rightarrow> bool" where
  "no_delay d = (case d of None \<Rightarrow> True | Some n \<Rightarrow> n = 0)"

text \<open>The five errors that the handler of \<^verbatim>\<open>send_guild_log\<close> catches.\<close>

fun swallowed :: "error \<Rightarrow> bool" where
  "swallowed UnauthorizedError = True"
| "swallowed ForbiddenError = True"
| "swallowed NotFoundError = True"
| "swallowed RateLimitTooLongError = True"
| "swallowed InternalServerError = True"
| "swallowed _ = False"

definition send_guild_log ::
  "log_outcome \<Rightarrow> Guild \<Rightarrow> outgoing \<Rightarrow> int option \<Rightarrow> channel \<Rightarrow> error option \<times> event list" where
  "send_guild_log lo guild message delete_after_time original_channel =
     (case (if no_delay (log_channel_id guild) then Inr original_channel
            else lo_fetch_channel lo) of
        Inl err \<Rightarrow> (if swallowed err then None else Some err, [Guild_log message])
      | Inr ch \<Rightarrow>
          (case lo_send lo of
             Some err \<Rightarrow> (if swallowed err then None else Some err,
                          [Guild_log message, Channel_send (chan_id ch) message])
           | None \<Rightarrow>
               if no_delay delete_after_time
               then (None, [Guild_log message, Channel_send (chan_id ch) message])
               else (case lo_delete lo of
                       None \<Rightarrow> None
                     | Some err \<Rightarrow> if swallowed err then None else Some err,
                     [Guild_log message, Channel_send (chan_id ch) message,
                      Sleep (the delete_after_time), Delete_log])))"

definition kick_or_ban :: "bool \<Rightarrow> pystr" where
  "kick_or_ban is_kick = (if is_kick then u ''kick'' else u ''ban'')"

definition notify_failed_notice :: "user \<Rightarrow> bool \<Rightarrow> outgoing" where
  "notify_failed_notice author is_kick =
     Text (u ''Sending a message to '' @ mention author @ u '' about their '' @
           kick_or_ban is_kick @ u '' failed.'')"

definition punish_failed_notice :: "Member \<Rightarrow> bool \<Rightarrow> outgoing" where
  "punish_failed_notice member is_kick =
     Text (u ''An error occurred trying to '' @ kick_or_ban is_kick @ u '': <@'' @
           str_int (member_id member) @ u ''>'')"

text \<open>The revert of the three denial branches and of the failed action.\<close>

definition reverted :: "Member \<Rightarrow> Member" where
  "reverted member = member\<lparr> in_guild := True, kick_count := kick_count member - 1 \<rparr>"

text \<open>
  The authority test of \<^verbatim>\<open>punish_member\<close>: the message of the denial, if any. The two
  capability tests read \<^verbatim>\<open>perms.KICK_MEMBERS\<close> and \<^verbatim>\<open>perms.BAN_MEMBERS\<close> as the
  eligibility filter does.
\<close>

definition denial :: "hguild \<Rightarrow> user \<Rightarrow> permissions \<Rightarrow> Member \<Rightarrow> bool \<Rightarrow> pystr option" where
  "denial guild author perms member is_kick =
     (if \<not> truthy (attr_KICK_MEMBERS perms) \<and> is_kick
      then Some (u ''I need kick perms to punish someone in '' @ g_name guild)
      else if \<not> truthy (attr_BAN_MEMBERS perms) \<and> \<not> is_kick
      then Some (u ''I need ban perms to punish someone in '' @ g_name guild)
      else if g_owner_id guild = member_id member
      then Some (u ''I cannot punish '' @ username author @ u ''('' @ str_int (user_id author) @
                 u '') because they own this guild. ('' @ g_name guild @ u '')'')
      else None)"

text \<open>
  The first \<^verbatim>\<open>try\<close>: the private notification. The result is the error that leaves
  \<^verbatim>\<open>punish_member\<close>, or whether \<^verbatim>\<open>sent_message\<close> is set.
\<close>

definition notify ::
  "remote \<Rightarrow> user \<Rightarrow> Guild \<Rightarrow> channel \<Rightarrow> outgoing \<Rightarrow> bool \<Rightarrow> int option \<Rightarrow> int option \<Rightarrow>
   (error + bool) \<times> event list" where
  "notify r author internal_guild ch user_message is_kick user_delete_after channel_delete_after =
     (let (raised, sent, tr) =
            (case r_user_send r of
               Some err \<Rightarrow> (Some err, False, [User_send (user_id author) user_message])
             | None \<Rightarrow>
                 if no_delay user_delete_after
                 then (None, True, [User_send (user_id author) user_message])
                 else (r_delete_after r, True,
                       [User_send (user_id author) user_message,
                        Sleep (the user_delete_after), Delete_sent]))
      in case raised of
           None \<Rightarrow> (Inr sent, tr)
         | Some err \<Rightarrow>
             if err = InternalServerError
             then (case send_guild_log (r_log_notify_failed r) internal_guild
                          (notify_failed_notice author is_kick) channel_delete_after ch of
                     (None, ltr) \<Rightarrow> (Inr sent, tr @ ltr)
                   | (Some err', ltr) \<Rightarrow> (Inl err', tr @ ltr))
             else (Inl err, tr))"

text \<open>The last two statements: \<^verbatim>\<open>member._in_guild = True\<close> and \<^verbatim>\<open>cache.set_member\<close>.\<close>

definition finish :: "Member \<Rightarrow> event list \<Rightarrow> error option \<times> Member \<times> event list" where
  "finish member tr =
     (None, member\<lparr> in_guild := True \<rparr>, tr @ [Set_member (member\<lparr> in_guild := True \<rparr>)])"

definition failed_template :: "options \<Rightarrow> bool \<Rightarrow> template" where
  "failed_template os is_kick =
     (if is_kick then member_failed_kick_message os else member_failed_ban_message os)"

text \<open>The handler of \<^verbatim>\<open>InternalServerError\<close> around the kick or ban.\<close>

definition punish_failed ::
  "env \<Rightarrow> remote \<Rightarrow> hmessage \<Rightarrow> Member \<Rightarrow> Guild \<Rightarrow> channel \<Rightarrow> bool \<Rightarrow> int option \<Rightarrow> bool \<Rightarrow>
   event list \<Rightarrow> error option \<times> Member \<times> event list" where
  "punish_failed e r original_message member internal_guild ch is_kick channel_delete_after sent tr =
     (let member = reverted member in
      case send_guild_log (r_log_punish_failed r) internal_guild
             (punish_failed_notice member is_kick) channel_delete_after ch of
        (Some err, ltr) \<Rightarrow> (Some err, member, tr @ ltr)
      | (None, ltr) \<Rightarrow>
          if \<not> sent then finish member (tr @ ltr)
          else (case transform_message e (item_of_template (failed_template (opts e) is_kick))
                       original_message (warn_count member) (kick_count member) of
                  Inl err \<Rightarrow> (Some err, member, tr @ ltr)
                | Inr user_failed_message \<Rightarrow>
                    (case send_guild_log (r_log_failed_message r) internal_guild
                            user_failed_message channel_delete_after ch of
                       (Some err, ltr2) \<Rightarrow> (Some err, member, tr @ ltr @ ltr2)
                     | (None, ltr2) \<Rightarrow>
                         (case r_retract r of
                            Some err \<Rightarrow> (Some err, member, tr @ ltr @ ltr2 @ [Delete_sent])
                          | None \<Rightarrow> finish member (tr @ ltr @ ltr2 @ [Delete_sent])))))"

text \<open>The second \<^verbatim>\<open>try\<close>: the kick or ban, its handler and its \<^verbatim>\<open>else\<close>.\<close>

definition act ::
  "env \<Rightarrow> remote \<Rightarrow> hmessage \<Rightarrow> Member \<Rightarrow> Guild \<Rightarrow> channel \<Rightarrow> outgoing \<Rightarrow> bool \<Rightarrow>
   int option \<Rightarrow> bool \<Rightarrow> event list \<Rightarrow> error option \<times> Member \<times> event list" where
  "act e r original_message member internal_guild ch guild_message is_kick channel_delete_after
       sent tr =
     (let tr = tr @ [if is_kick then Kick (user_id (h_author original_message))
                     else Ban (user_id (h_author original_message))]
      in case r_punish r of
           Some err \<Rightarrow>
             if err = InternalServerError
             then punish_failed e r original_message member internal_guild ch is_kick
                    channel_delete_after sent tr
             else (Some err, member, tr)
         | None \<Rightarrow>
             (case send_guild_log (r_log_success r) internal_guild guild_message
                     channel_delete_after ch of
                (Some err, ltr) \<Rightarrow> (Some err, member, tr @ ltr)
              | (None, ltr) \<Rightarrow> finish member (tr @ ltr)))"

text \<open>
  \<^verbatim>\<open>punish_member\<close>: the error raised (\<open>None\<close> when it returns), the member object as the
  function leaves it, and the events in order.
\<close>

definition punish_member ::
  "env \<Rightarrow> remote \<Rightarrow> hmessage \<Rightarrow> Member \<Rightarrow> Guild \<Rightarrow> outgoing \<Rightarrow> outgoing \<Rightarrow> bool \<Rightarrow>
   int option \<Rightarrow> int option \<Rightarrow> error option \<times> Member \<times> event list" where
  "punish_member e r original_message member internal_guild user_message guild_message is_kick
       user_delete_after channel_delete_after =
     (case r_fetch_channel r of
        Inl err \<Rightarrow> (Some err, member, [])
      | Inr ch \<Rightarrow>
          (case lookup_guild e (h_guild_id original_message) of
             None \<Rightarrow> (Some AttributeError, member, [])
           | Some guild \<Rightarrow>
               (case get_perms (g_get_my_member guild) of
                  Inl err \<Rightarrow> (Some err, member, [])
                | Inr perms \<Rightarrow>
                    (case denial guild (h_author original_message) perms member is_kick of
                       Some text \<Rightarrow> (Some (MissingGuildPermissions text), reverted member, [])
                     | None \<Rightarrow>
                         (case notify r (h_author original_message) internal_guild ch
                                 user_message is_kick user_delete_after channel_delete_after of
                            (Inl err, tr) \<Rightarrow> (Some err, member, tr)
                          | (Inr sent, tr) \<Rightarrow>
                              act e r original_message member internal_guild ch guild_message
                                is_kick channel_delete_after sent tr)))))"

text \<open>Readings of a trace.\<close>

fun is_set_member :: "event \<Rightarrow> bool" where
  "is_set_member (Set_member _) = True"
| "is_set_member _ = False"


fun is_punitive :: "event \<Rightarrow> bool" where
  "is_punitive (Kick _) = True"
| "is_punitive (Ban _) = True"
| "is_punitive _ = False"

fun is_user_send :: "event \<Rightarrow> bool" where
  "is_user_send (User_send _ _) = True"
| "is_user_send _ = False"

text \<open>
  A result of \<^verbatim>\<open>punish_member\<close> in which the member record was written to the cache
  exactly once, as the last effect, with \<open>in_guild\<close> true; and one in which it was not
  written.
\<close>

definition persisted_once :: "error option \<times> Member \<times> event list \<Rightarrow> bool" where
  "persisted_once res =
     (case res of (raised, member, tr) \<Rightarrow>
        in_guild member \<and> tr \<noteq> [] \<and> last tr = Set_member member \<and>
        filter is_set_member (butlast tr) = [])"

definition never_persisted :: "error option \<times> Member \<times> event list \<Rightarrow> bool" where
  "never_persisted res = (filter is_set_member (snd (snd res)) = [])"

definition settled :: "error option \<times> Member \<times> event list \<Rightarrow> bool" where
  "settled res \<longleftrightarrow> (if fst res = None then persisted_once res else never_persisted res)"



section \<open>Cleanup sweeper: \<^verbatim>\<open>delete_member_messages\<close> and \<^verbatim>\<open>delete_message\<close>\<close>

text \<open>
  The platform as the sweep sees it. A channel is identified by its id; \<open>p_fetch_channel\<close>
  is the failure of \<^verbatim>\<open>rest.fetch_channel\<close>, if any. A message is a pair of channel id and
  message id; the state is the list of the messages that exist. \<open>p_fetch_error\<close> and
  \<open>p_delete_error\<close> are failures of \<^verbatim>\<open>channel.fetch_message\<close> and \<^verbatim>\<open>message.delete\<close>
  for another reason than absence (no permission, a server error, a message that
  disappears between the fetch and the delete).
\<close>

record platform =
  p_fetch_channel :: "int \<Rightarrow> error option"
  p_fetch_error :: "int \<Rightarrow> int \<Rightarrow> error option"
  p_delete_error :: "int \<Rightarrow> int \<Rightarrow> error option"

datatype sweep_event = Fetch_channel int | Fetch_message int int | Delete_message int int

definition fetch_message :: "platform \<Rightarrow> (int \<times> int) list \<Rightarrow> int \<Rightarrow> int \<Rightarrow> error option" where
  "fetch_message p live cid mid =
     (case p_fetch_error p cid mid of
        Some err \<Rightarrow> Some err
      | None \<Rightarrow> if (cid, mid) \<in> set live then None else Some NotFoundError)"

definition message_delete ::
  "platform \<Rightarrow> (int \<times> int) list \<Rightarrow> int \<Rightarrow> int \<Rightarrow> error option \<times> (int \<times> int) list" where
  "message_delete p live cid mid =
     (case p_delete_error p cid mid of
        Some err \<Rightarrow> (Some err, live)
      | None \<Rightarrow> if (cid, mid) \<in> set live then (None, removeAll (cid, mid) live)
                else (Some NotFoundError, live))"

text \<open>\<^verbatim>\<open>delete_message\<close>: not-found and forbidden are logged, anything else is raised.\<close>

definition delete_message ::
  "platform \<Rightarrow> (int \<times> int) list \<Rightarrow> int \<Rightarrow> int \<Rightarrow> error option \<times> (int \<times> int) list" where
  "delete_message p live cid mid =
     (case message_delete p live cid mid of
        (Some err, live') \<Rightarrow>
          if err = NotFoundError \<or> err = ForbiddenError then (None, live') else (Some err, live')
      | (None, live') \<Rightarrow> (None, live'))"

definition and_then ::
  "sweep_event list \<Rightarrow> error option \<times> (int \<times> int) list \<times> sweep_event list \<Rightarrow>
   error option \<times> (int \<times> int) list \<times> sweep_event list" where
  "and_then evs res = (case res of (r, live, tr) \<Rightarrow> (r, live, evs @ tr))"

text \<open>
  The loop of \<^verbatim>\<open>delete_member_messages\<close>, with the dictionary \<^verbatim>\<open>channels\<close> as the list
  of its keys: the error raised (\<open>None\<close> when the sweep returns), the messages that
  exist afterwards, and the calls made.
\<close>

fun sweep ::
  "platform \<Rightarrow> int list \<Rightarrow> (int \<times> int) list \<Rightarrow> stored_message list \<Rightarrow>
   error option \<times> (int \<times> int) list \<times> sweep_event list" where
  "sweep p channels live [] = (None, live, [])"
| "sweep p channels live (m # ms) =
     (if \<not> is_duplicate m then sweep p channels live ms
      else if message_channel_id m \<notin> set channels \<and>
              p_fetch_channel p (message_channel_id m) \<noteq> None
      then (p_fetch_channel p (message_channel_id m), live,
            [Fetch_channel (message_channel_id m)])
      else
        (let cid = message_channel_id m; mid = message_id m;
             evs = (if cid \<in> set channels then [] else [Fetch_channel cid]) @
                   [Fetch_message cid mid];
             channels = (if cid \<in> set channels then channels else cid # channels)
         in case fetch_message p live cid mid of
              Some err \<Rightarrow>
                if err = NotFoundError then and_then evs (sweep p channels live ms)
                else (Some err, live, evs)
            | None \<Rightarrow>
                (case delete_message p live cid mid of
                   (Some err, live') \<Rightarrow> (Some err, live', evs @ [Delete_message cid mid])
                 | (None, live') \<Rightarrow>
                     and_then (evs @ [Delete_message cid mid]) (sweep p channels live' ms))))"

definition delete_member_messages ::
  "platform \<Rightarrow> (int \<times> int) list \<Rightarrow> Member \<Rightarrow>
   error option \<times> (int \<times> int) list \<times> sweep_event list" where
  "delete_member_messages p live member = sweep p [] live (messages member)"

text \<open>Readings of a sweep: the messages it tried to fetch, in order.\<close>

fun is_fetch_message :: "sweep_event \<Rightarrow> bool" where
  "is_fetch_message (Fetch_message _ _) = True"
| "is_fetch_message _ = False"

text \<open>
  The faults that the sweep absorbs for a flagged message: its channel resolves, fetching
  it fails at most with not-found, deleting it fails at most with not-found or forbidden.
  A message is deletable when the platform refuses neither its fetch nor its delete.
\<close>

definition tolerated :: "platform \<Rightarrow> stored_message \<Rightarrow> bool" where
  "tolerated p m \<longleftrightarrow>
     p_fetch_channel p (message_channel_id m) = None \<and>
     p_fetch_error p (message_channel_id m) (message_id m) \<in> {None, Some NotFoundError} \<and>
     p_delete_error p (message_channel_id m) (message_id m) \<in>
       {None, Some NotFoundError, Some ForbiddenError}"

definition deletable :: "platform \<Rightarrow> stored_message \<Rightarrow> bool" where
  "deletable p m \<longleftrightarrow>
     p_fetch_error p (message_channel_id m) (message_id m) = None \<and>
     p_delete_error p (message_channel_id m) (message_id m) = None"

text \<open>
  A sweep that went through the whole sequence: it returned, it tried to fetch every
  flagged message, in order, and no deletable flagged message exists afterwards.
\<close>

definition swept ::
  "platform \<Rightarrow> stored_message list \<Rightarrow>
   error option \<times> (int \<times> int) list \<times> sweep_event list \<Rightarrow> bool" where
  "swept p ms res \<longleftrightarrow>
     fst res = None \<and>
     filter is_fetch_message (snd (snd res)) =
       map (\<lambda>m. Fetch_message (message_channel_id m) (message_id m)) (filter is_duplicate ms) \<and>
     (\<forall>m \<in> set ms. is_duplicate m \<and> deletable p m \<longrightarrow>
        (message_channel_id m, message_id m) \<notin> set (fst (snd res)))"

text \<open>
  The faults that the sweep does not absorb, for a flagged message reached while the
  messages \<open>live\<close> exist: its channel does not resolve; or the channel resolves and the
  fetch of the message fails otherwise than with not-found; or the message is fetched and
  its delete fails otherwise than with not-found or forbidden. \<open>err\<close> is the error.
\<close>

definition stops :: "platform \<Rightarrow> (int \<times> int) list \<Rightarrow> stored_message \<Rightarrow> error \<Rightarrow> bool" where
  "stops p live m err \<longleftrightarrow>
     p_fetch_channel p (message_channel_id m) = Some err \<or>
     p_fetch_channel p (message_channel_id m) = None \<and>
       fetch_message p live (message_channel_id m) (message_id m) = Some err \<and>
       err \<noteq> NotFoundError \<or>
     p_fetch_channel p (message_channel_id m) = None \<and>
       fetch_message p live (message_channel_id m) (message_id m) = None \<and>
       p_delete_error p (message_channel_id m) (message_id m) = Some err \<and>
       err \<noteq> NotFoundError \<and> err \<noteq> ForbiddenError"

section \<open>Concrete inputs\<close>

definition alice :: user where
  "alice = \<lparr> user_id = 42, username = u ''alice'', mention = u ''<@42>'', is_bot = False,
             avatar_url = u ''https://cdn/a.png'' \<rparr>"

definition bot_user :: user where
  "bot_user = \<lparr> user_id = 9, username = u ''guard'', mention = u ''<@9>'', is_bot = True,
                avatar_url = u ''https://cdn/b.png'' \<rparr>"

definition general :: channel where
  "general = \<lparr> chan_id = 7, chan_name = Some (u ''general'') \<rparr>"

definition opts0 :: options where
  "opts0 = \<lparr> ignore_bots = True, ignored_members = {}, ignored_channels = {},
             ignored_roles = {}, ignored_guilds = {}, delete_zero_width_chars = True,
             member_failed_kick_message = TStr (u ''I failed to kick $USERNAME''),
             member_failed_ban_message = TStr (u ''I failed to ban $USERNAME'') \<rparr>"

text \<open>A guild message of \<open>alice\<close> whose text is \<^verbatim>\<open>"a", U+200B, "b"\<close>.\<close>

definition msg_zw :: hmessage where
  "msg_zw = \<lparr> h_id = 1, h_channel_id = 7, h_guild_id = Some 100, h_author = alice,
              h_content = Some [97, 0x200B, 98], h_embeds = [], h_created_at = u ''2021-06-01T00:00:00'',
              h_fetch_channel = Inr general \<rparr>"

text \<open>
  Guild 100, owned by user 1. The bot is member 9 and its only role carries no permission
  at all; \<open>alice\<close> is member 42.
\<close>

definition alice_member :: guild_member where
  "alice_member = \<lparr> gm_id = 42, gm_username = u ''alice'', gm_avatar_url = u ''https://cdn/a.png'',
                    gm_role_ids = [500], gm_fetch_roles = Inr [\<lparr> role_name = u ''member'', role_permissions = 0 \<rparr>] \<rparr>"

definition bot_member :: guild_member where
  "bot_member = \<lparr> gm_id = 9, gm_username = u ''guard'', gm_avatar_url = u ''https://cdn/b.png'',
                  gm_role_ids = [500], gm_fetch_roles = Inr [\<lparr> role_name = u ''member'', role_permissions = 0 \<rparr>] \<rparr>"

definition guild0 :: hguild where
  "guild0 = \<lparr> g_name = u ''Lobby'', g_owner_id = 1, g_icon_url = u ''https://cdn/g.png'',
              g_get_member = (\<lambda>i. if i = 42 then Some alice_member else None),
              g_get_my_member = Some bot_member \<rparr>"

definition env0 :: env where
  "env0 = \<lparr> get_me = Some bot_user,
            get_guild = (\<lambda>i. if i = 100 then Some guild0 else None),
            opts = opts0,
            timestamp_now = u ''09:30:00 AM, 01/06/2021'',
            timestamp_today = u ''01/06/2021'' \<rparr>"

definition msg0 :: hmessage where
  "msg0 = \<lparr> h_id = 2, h_channel_id = 7, h_guild_id = Some 100, h_author = alice,
            h_content = Some (u ''hello''), h_embeds = [], h_created_at = u ''2021-06-01T00:00:00'',
            h_fetch_channel = Inr general \<rparr>"

text \<open>
  The mapping that the literal \<^verbatim>\<open>{'title': 'Bye $USERNAME', 'colour': 65280}\<close> denotes, and
  the literal itself.
\<close>

definition embed_colour :: embed_data where
  "embed_colour = \<lparr> e_title = Some (u ''Bye $USERNAME''), e_description = None,
     e_footer = None, e_author = None, e_fields = None, e_timestamp = None,
     e_colour = Some 0x00FF00, e_color = None, e_type = None \<rparr>"

definition colour_literal :: pystr where
  "colour_literal = [123, 39] @ u ''title'' @ [39, 58, 32, 39] @ u ''Bye $USERNAME'' @
     [39, 44, 32, 39] @ u ''colour'' @ [39] @ u '': 65280}''"

text \<open>
  A ban of \<open>alice\<close>, member 42 with two kicks on record, in a guild whose log channel is
  channel 55; every remote call succeeds.
\<close>

definition mod_log :: channel where
  "mod_log = \<lparr> chan_id = 55, chan_name = Some (u ''mod-log'') \<rparr>"

definition log_ok :: log_outcome where
  "log_ok = \<lparr> lo_fetch_channel = Inr mod_log, lo_send = None, lo_delete = None \<rparr>"

definition remote_ok :: remote where
  "remote_ok = \<lparr> r_fetch_channel = Inr general, r_user_send = None, r_delete_after = None,
                 r_log_notify_failed = log_ok, r_punish = None, r_log_punish_failed = log_ok,
                 r_log_failed_message = log_ok, r_retract = None, r_log_success = log_ok \<rparr>"

definition member0 :: Member where
  "member0 = \<lparr> member_id = 42, warn_count = 3, kick_count = 2, in_guild = False,
               messages = [] \<rparr>"

definition internal_guild0 :: Guild where
  "internal_guild0 = \<lparr> guild_id = 100, log_channel_id = Some 55 \<rparr>"

definition ban_dm :: outgoing where
  "ban_dm = Text (u ''You were banned for spam'')"

definition ban_log :: outgoing where
  "ban_log = Text (u ''alice was banned for spam'')"

text \<open>The same guild when \<open>alice\<close> owns it.\<close>

definition env_owned :: env where
  "env_owned = env0 \<lparr> get_guild := (\<lambda>i. if i = 100 then Some (guild0 \<lparr> g_owner_id := 42 \<rparr>)
                                         else None) \<rparr>"

text \<open>The ban fails with a server error; and then the retraction of the notice fails too.\<close>

definition remote_ban_fails :: remote where
  "remote_ban_fails = remote_ok \<lparr> r_punish := Some InternalServerError \<rparr>"

definition remote_retract_fails :: remote where
  "remote_retract_fails = remote_ban_fails \<lparr> r_retract := Some NotFoundError \<rparr>"

text \<open>The member has disabled direct messages.\<close>

definition remote_dm_forbidden :: remote where
  "remote_dm_forbidden = remote_ok \<lparr> r_user_send := Some ForbiddenError \<rparr>"

text \<open>
  Three flagged messages of \<open>alice\<close>: message 1 in channel 7, message 2 in channel 8,
  message 3 in channel 7. Messages 1 and 3 exist, message 2 does not any more.
\<close>

definition flagged_message :: "int \<Rightarrow> int \<Rightarrow> stored_message" where
  "flagged_message cid mid =
     \<lparr> message_id = mid, message_channel_id = cid, message_guild_id = Some 100,
       message_author_id = 42, message_content = u ''buy now'', is_duplicate = True \<rparr>"

definition member_flagged :: Member where
  "member_flagged =
     member0 \<lparr> messages := [flagged_message 7 1, flagged_message 8 2, flagged_message 7 3] \<rparr>"

definition live0 :: "(int \<times> int) list" where
  "live0 = [(7, 1), (7, 3)]"

text \<open>A platform without faults, and one on which channel 8 has been deleted.\<close>

definition platform_ok :: platform where
  "platform_ok = \<lparr> p_fetch_channel = (\<lambda>c. None), p_fetch_error = (\<lambda>c m. None),
                   p_delete_error = (\<lambda>c m. None) \<rparr>"

definition platform_channel_gone :: platform where
  "platform_channel_gone =
     platform_ok \<lparr> p_fetch_channel := (\<lambda>c. if c = 8 then Some NotFoundError else None) \<rparr>"

text \<open>
  A platform on which the bot may not read message 2 of channel 8, and one on which the
  delete of message 1 of channel 7 fails with a server error.
\<close>

definition platform_fetch_forbidden :: platform where
  "platform_fetch_forbidden =
     platform_ok \<lparr> p_fetch_error :=
       (\<lambda>c m. if c = 8 \<and> m = 2 then Some ForbiddenError else None) \<rparr>"

definition platform_delete_fails :: platform where
  "platform_delete_fails =
     platform_ok \<lparr> p_delete_error :=
       (\<lambda>c m. if c = 7 \<and> m = 1 then Some InternalServerError else None) \<rparr>"

text \<open>The same handler with \<open>alice\<close> and channel 7 on the ignore lists.\<close>

definition env_ignoring :: env where
  "env_ignoring = env0 \<lparr> opts := opts0 \<lparr> ignored_members := {42}, ignored_channels := {KInt 7} \<rparr> \<rparr>"

section \<open>Theorems\<close>

lemmas input_defs = env0_def guild0_def bot_member_def alice_member_def msg0_def alice_def
  bot_user_def general_def opts0_def env_ignoring_def

lemmas punish_input_defs = mod_log_def log_ok_def remote_ok_def member0_def internal_guild0_def
  ban_dm_def ban_log_def env_owned_def remote_ban_fails_def remote_retract_fails_def
  remote_dm_forbidden_def

lemmas sweep_input_defs = flagged_message_def member_flagged_def live0_def platform_ok_def
  platform_channel_gone_def platform_fetch_forbidden_def platform_delete_fails_def member0_def

lemmas sweep_defs = delete_member_messages_def fetch_message_def delete_message_def
  message_delete_def and_then_def Let_def

lemmas punish_defs = punish_member_def notify_def act_def punish_failed_def finish_def
  send_guild_log_def denial_def get_perms_def reverted_def no_delay_def lookup_guild_def
  attr_KICK_MEMBERS_def attr_BAN_MEMBERS_def truthy_def KICK_MEMBERS_def BAN_MEMBERS_def
  NONE_def

lemmas scan_defs = u_def is_id_start_def is_id_char_def starts_escaped_def starts_named_def
  starts_braced_def

subsection \<open>Entity normalizer\<close>

text \<open>
  C1. Claim: with \<^verbatim>\<open>delete_zero_width_chars\<close> enabled, the content returned by
  \<^verbatim>\<open>create_message\<close> contains none of U+200B, U+200C, U+200D, U+200E, U+200F, U+FEFF.
  The code does not do this: on the text \<^verbatim>\<open>"a", U+200B, "b"\<close> it returns the text
  unchanged, U+200B included, because it searches for the five-character ASCII strings
  \<^verbatim>\<open>"u200B"\<close> etc. instead of the code points.
\<close>

theorem create_message_keeps_zero_width:
  "delete_zero_width_chars opts0 \<and>
   create_message opts0 msg_zw =
     Inr \<lparr> message_id = 1, message_channel_id = 7, message_guild_id = Some 100,
           message_author_id = 42, message_content = [97, 0x200B, 98] \<rparr> \<and>
   0x200B \<in> set [97, 0x200B, 98::nat] \<inter> zero_width_chars"
  by (simp add: create_message_def delete_zero_width_def replace_def has_text_def strip_def
      isspace_def opts0_def msg_zw_def alice_def u_def zero_width_chars_def)

subsection \<open>Eligibility filter\<close>

text \<open>
  C2. Claim: for a message that passes every check, \<^verbatim>\<open>has_perms_to_make_guild\<close> is true
  if and only if the bot's effective permissions contain both the kick and the ban
  capability. The code does not do this: with a bot whose roles carry no permission at
  all, the message \<open>msg0\<close> passes every check and the flag is \<^verbatim>\<open>Permissions.BAN_MEMBERS\<close>,
  which is true. The source reads \<^verbatim>\<open>perms.KICK_MEMBERS and perms.BAN_MEMBERS\<close>, two
  members of the enumeration, instead of testing \<^verbatim>\<open>perms\<close> against them.
\<close>

theorem has_perms_flag_true_without_capabilities:
  "get_perms (g_get_my_member guild0) = Inr NONE \<and>
   \<not> has_capability NONE KICK_MEMBERS \<and> \<not> has_capability NONE BAN_MEMBERS \<and>
   check_message_can_be_propagated env0 (IsMessage msg0) =
     Inr \<lparr> pd_guild_id = Some 100, pd_member_name = u ''alice'', pd_member_id = 42,
           has_perms_to_make_guild = BAN_MEMBERS \<rparr> \<and>
   truthy BAN_MEMBERS"
  by (simp add: check_message_can_be_propagated_def check_from_channel_def
      check_ignored_roles_def channel_is_ignored_def get_perms_def then_do_def py_and_def
      attr_KICK_MEMBERS_def attr_BAN_MEMBERS_def truthy_def NONE_def KICK_MEMBERS_def
      BAN_MEMBERS_def has_capability_def no_guild_id_def lookup_guild_def input_defs)

text \<open>
  C7. A message whose author is on the ignored-members list is never rejected with the
  ignored-channel rejection, whatever its channel; and when the checks that come before
  the member test pass, it is rejected with the ignored-member rejection that names the
  author. The channel is not even fetched: the member test comes first and ends the
  chain.
\<close>

theorem ignored_member_precedes_ignored_channel:
  assumes "user_id (h_author message) \<in> ignored_members (opts e)"
  shows "check_message_can_be_propagated e (IsMessage message) \<noteq>
           Inl (PropagateFailure (ignored_channel_status message)) \<and>
         (reaches_member_check e message \<longrightarrow>
            check_message_can_be_propagated e (IsMessage message) =
              Inl (PropagateFailure (ignored_member_status message)))"
  using assms
  by (auto simp add: check_message_can_be_propagated_def reaches_member_check_def
      ignored_channel_status_def ignored_member_status_def u_def
      split: option.splits)

theorem ignored_member_precedes_ignored_channel_witness:
  "user_id (h_author msg0) \<in> ignored_members (opts env_ignoring) \<and>
   channel_is_ignored (opts env_ignoring) msg0 general \<and>
   reaches_member_check env_ignoring msg0 \<and>
   check_message_can_be_propagated env_ignoring (IsMessage msg0) =
     Inl (PropagateFailure (u ''Ignoring this member: 42'')) \<and>
   check_message_can_be_propagated env_ignoring (IsMessage msg0) \<noteq>
     Inl (PropagateFailure (u ''Ignoring this channel: 7''))"
proof -
  have a: "user_id (h_author msg0) \<in> ignored_members (opts env_ignoring)"
    by (simp add: input_defs)
  have b: "reaches_member_check env_ignoring msg0"
    by (simp add: reaches_member_check_def no_guild_id_def lookup_guild_def input_defs)
  have c: "channel_is_ignored (opts env_ignoring) msg0 general"
    by (simp add: channel_is_ignored_def input_defs)
  have d: "ignored_member_status msg0 = u ''Ignoring this member: 42''"
    by (simp add: ignored_member_status_def str_int_def input_defs u_def)
  have e: "ignored_channel_status msg0 = u ''Ignoring this channel: 7''"
    by (simp add: ignored_channel_status_def str_int_def input_defs u_def)
  show ?thesis
    using ignored_member_precedes_ignored_channel [OF a] a b c d e by (simp add: u_def)
qed

subsection \<open>Template engine\<close>

lemma hd_tl_eq: "xs \<noteq> [] \<Longrightarrow> hd xs = a \<Longrightarrow> a # tl xs = xs"
  by (cases xs) simp_all

text \<open>The matches of the pattern and the text between them make up the string.\<close>

lemma tokenize_matched: "concat (map matched (tokenize s)) = s"
proof (induction s rule: tokenize.induct)
  case 1
  show ?case by simp
next
  case (2 c cs)
  let ?d = "dropWhile is_id_char (tl cs)"
  show ?case
  proof (cases "c \<noteq> 36")
    case True
    with "2.IH"(1) show ?thesis by simp
  next
    case c: False
    show ?thesis
    proof (cases "starts_escaped cs")
      case True
      then have "36 # tl cs = cs" by (simp add: starts_escaped_def hd_tl_eq)
      with "2.IH"(2) [OF c True] c True show ?thesis by simp
    next
      case esc: False
      show ?thesis
      proof (cases "starts_named cs")
        case True
        with "2.IH"(3) [OF c esc True] c esc show ?thesis by simp
      next
        case named: False
        show ?thesis
        proof (cases "starts_braced cs")
          case True
          then have a: "123 # tl cs = cs" and b: "125 # tl ?d = ?d"
            by (simp_all add: starts_braced_def hd_tl_eq)
          have "takeWhile is_id_char (tl cs) @ 125 # tl ?d = tl cs"
            by (simp add: b)
          then have "123 # takeWhile is_id_char (tl cs) @ 125 # tl ?d = cs"
            using a by simp
          with "2.IH"(4) [OF c esc named True] c esc named True show ?thesis by simp
        next
          case False
          with "2.IH"(5) [OF c esc named False] c esc named show ?thesis by simp
        qed
      qed
    qed
  qed
qed

lemma map_of_token_table:
  "n \<notin> set recognized_tokens \<Longrightarrow> map_of (token_table e g me m w k) n = None"
  by (simp add: map_of_eq_None_iff token_table_def recognized_tokens_def)

lemma convert_unknown:
  "unknown_token t \<Longrightarrow> convert (map_of (token_table e g me m w k)) t = matched t"
  by (cases t) (simp_all add: unknown_token_def map_of_token_table)

text \<open>An example with every kind of match.\<close>

lemma substitute_args_example:
  "substitute_args env0 (u ''Hi $USERNAME, $$5 ${NOPE} ${WARNCOUNT}x $'') msg0 1 2 =
     Inr (u ''Hi alice, $5 ${NOPE} 1x $'')"
  by (simp add: substitute_args_def lookup_guild_def safe_substitute_def token_table_def
      str_int_def str_opt_int_def input_defs scan_defs)

text \<open>
  C8. On a string whose only template constructs are names outside the token table,
  \<^verbatim>\<open>substitute_args\<close> returns the string unchanged (the guild and the bot's member being
  in the cache, as every render needs): unknown names are left as they are and do not
  make the render fail. Applying it again therefore changes nothing either.
\<close>

theorem substitute_args_unknown_tokens:
  assumes "lookup_guild e (h_guild_id original_message) = Some guild"
    and "g_get_my_member guild = Some me"
    and "only_unknown_tokens s"
  shows "substitute_args e s original_message w k = Inr s"
proof -
  have "map (convert (map_of (token_table e guild me original_message w k))) (tokenize s)
        = map matched (tokenize s)"
  proof (rule map_cong [OF refl])
    fix t assume "t \<in> set (tokenize s)"
    with assms(3) show "convert (map_of (token_table e guild me original_message w k)) t = matched t"
      by (intro convert_unknown) (simp add: only_unknown_tokens_def list_all_iff)
  qed
  then have "safe_substitute (map_of (token_table e guild me original_message w k)) s = s"
    unfolding safe_substitute_def by (simp only: tokenize_matched)
  with assms(1,2) show ?thesis by (simp add: substitute_args_def)
qed

theorem substitute_args_unknown_tokens_witness:
  "lookup_guild env0 (h_guild_id msg0) = Some guild0 \<and>
   g_get_my_member guild0 = Some bot_member \<and>
   only_unknown_tokens (u ''$NOPE'') \<and>
   substitute_args env0 (u ''$NOPE'') msg0 1 2 = Inr (u ''$NOPE'')"
proof -
  have a: "lookup_guild env0 (h_guild_id msg0) = Some guild0"
    by (simp add: lookup_guild_def env0_def msg0_def)
  have b: "g_get_my_member guild0 = Some bot_member"
    by (simp add: guild0_def)
  have c: "only_unknown_tokens (u ''$NOPE'')"
    by (simp add: only_unknown_tokens_def unknown_token_def recognized_tokens_def scan_defs)
  show ?thesis
    using a b c substitute_args_unknown_tokens [OF a b c, of 1 2] by simp
qed

text \<open>
  C6. Claim: a configuration value that begins with a brace is parsed and rendered as rich
  content, a malformed one fails with the typed error \<^verbatim>\<open>TemplateParseError\<close> and never
  with the parser's exception; any other value is rendered by substitution. The second
  part fails: on \<^verbatim>\<open>"{"\<close>, where \<^verbatim>\<open>ast.literal_eval\<close> raises \<^verbatim>\<open>SyntaxError\<close>, that very
  exception leaves \<^verbatim>\<open>visualizer\<close>.
\<close>

theorem visualizer_raises_parser_exception:
  "startswith (u ''{'') (u ''{'') \<and>
   visualizer (Inl SyntaxError) env0 (u ''{'') msg0 1 2 = Inl SyntaxError \<and>
   parser_exception SyntaxError \<and> \<not> package_error SyntaxError"
  by (simp add: visualizer_def startswith_def then_do_def u_def)

text \<open>
  C6 as amended. A value that begins with a brace is parsed by \<^verbatim>\<open>ast.literal_eval\<close>;
  when the parser raises, its exception leaves \<^verbatim>\<open>visualizer\<close> as it is, and when it gives
  a mapping, the mapping is rendered by \<^verbatim>\<open>dict_to_embed\<close>. Any other value is rendered by
  \<^verbatim>\<open>substitute_args\<close>.
\<close>

theorem visualizer_dispatch:
  "(startswith content (u ''{'') \<longrightarrow>
      (\<forall>err. parsed = Inl err \<longrightarrow> visualizer parsed e content message w k = Inl err) \<and>
      (\<forall>d. parsed = Inr (IDict d) \<longrightarrow>
          visualizer parsed e content message w k =
            then_do (dict_to_embed e d message w k) (\<lambda>em. Inr (EmbedMsg em)))) \<and>
   (\<not> startswith content (u ''{'') \<longrightarrow>
      visualizer parsed e content message w k =
        then_do (substitute_args e content message w k) (\<lambda>t. Inr (Text t)))"
  by (simp add: visualizer_def then_do_def transform_message_def)

theorem visualizer_dispatch_witness:
  "startswith (u ''{x}'') (u ''{'') \<and>
   visualizer (Inl ValueError) env0 (u ''{x}'') msg0 1 2 = Inl ValueError \<and>
   startswith colour_literal (u ''{'') \<and>
   visualizer (Inr (IDict embed_colour)) env0 colour_literal msg0 1 2 =
     Inr (EmbedMsg (embed_colour \<lparr> e_title := Some (u ''Bye alice''),
                                    e_color := Some 0x00FF00, e_type := Some (u ''rich'') \<rparr>)) \<and>
   \<not> startswith (u ''Bye $USERNAME'') (u ''{'') \<and>
   visualizer (Inl SyntaxError) env0 (u ''Bye $USERNAME'') msg0 1 2 = Inr (Text (u ''Bye alice''))"
proof -
  have a: "startswith (u ''{x}'') (u ''{'')" and b: "startswith colour_literal (u ''{'')"
    and c: "\<not> startswith (u ''Bye $USERNAME'') (u ''{'')"
    by (simp_all add: startswith_def colour_literal_def u_def)
  have d: "dict_to_embed env0 embed_colour msg0 1 2 =
             Inr (embed_colour \<lparr> e_title := Some (u ''Bye alice''),
                                  e_color := Some 0x00FF00, e_type := Some (u ''rich'') \<rparr>)"
    by (simp add: dict_to_embed_def embed_colour_def sub_present_def on_present_def then_do_def
        substitute_args_def lookup_guild_def safe_substitute_def token_table_def
        str_int_def str_opt_int_def input_defs scan_defs)
  have s: "substitute_args env0 (u ''Bye $USERNAME'') msg0 1 2 = Inr (u ''Bye alice'')"
    by (simp add: substitute_args_def lookup_guild_def safe_substitute_def token_table_def
        str_int_def str_opt_int_def input_defs scan_defs)
  show ?thesis
    using a b c
      visualizer_dispatch [of "u ''{x}''" "Inl ValueError" env0 msg0 1 2]
      visualizer_dispatch [of colour_literal "Inr (IDict embed_colour)" env0 msg0 1 2]
      visualizer_dispatch [of "u ''Bye $USERNAME''" "Inl SyntaxError" env0 msg0 1 2]
    by (simp add: d s then_do_def)
qed

subsection \<open>Punishment executor\<close>

lemma send_guild_log_no_set:
  "send_guild_log lo g m d c = (x, ltr) \<Longrightarrow> filter is_set_member ltr = []"
  by (auto simp add: send_guild_log_def split: sum.splits option.splits if_splits)






lemma notify_no_set:
  "notify r a g c um k uda cda = (x, tr) \<Longrightarrow> filter is_set_member tr = []"
  by (auto simp add: notify_def Let_def dest: send_guild_log_no_set
      split: option.splits if_splits prod.splits)


lemma settled_finish: "filter is_set_member tr = [] \<Longrightarrow> settled (finish m tr)"
  by (simp add: settled_def finish_def persisted_once_def)

lemma settled_raise: "filter is_set_member tr = [] \<Longrightarrow> settled (Some err, m, tr)"
  by (simp add: settled_def never_persisted_def)

lemma settled_punish_failed:
  assumes "filter is_set_member tr = []"
  shows "settled (punish_failed e r om member ig ch is_kick cda sent tr)"
  using assms
  by (auto simp add: punish_failed_def Let_def intro!: settled_finish settled_raise
      dest: send_guild_log_no_set split: prod.splits option.splits sum.splits)

lemma settled_act:
  assumes "filter is_set_member tr = []"
  shows "settled (act e r om member ig ch gm is_kick cda sent tr)"
  using assms
  by (auto simp add: act_def Let_def intro!: settled_finish settled_raise settled_punish_failed
      dest: send_guild_log_no_set split: prod.splits option.splits)

lemma settled_punish_member:
  "settled (punish_member e r om member ig um gm is_kick uda cda)"
  by (auto simp add: punish_member_def intro!: settled_raise settled_act
      dest: notify_no_set split: prod.splits option.splits sum.splits)

text \<open>
  C3. Claim: the member record is written through \<^verbatim>\<open>set_member\<close> exactly once on every
  terminal path, the denial included. The denial does not write: when the target owns the
  guild, \<^verbatim>\<open>punish_member\<close> reverts the member object, raises
  \<^verbatim>\<open>MissingGuildPermissions\<close> and has called nothing at all.
\<close>

theorem denied_path_skips_set_member:
  "punish_member env_owned remote_ok msg0 member0 internal_guild0 ban_dm ban_log False None None =
     (Some (MissingGuildPermissions
              (u ''I cannot punish alice(42) because they own this guild. (Lobby)'')),
      member0 \<lparr> in_guild := True, kick_count := 1 \<rparr>, []) \<and>
   \<not> persisted_once
       (punish_member env_owned remote_ok msg0 member0 internal_guild0 ban_dm ban_log
          False None None)"
  by (simp add: punish_defs persisted_once_def str_int_def input_defs punish_input_defs u_def)

text \<open>
  C3 as amended. Whenever \<^verbatim>\<open>punish_member\<close> returns (the success path and the partial
  failure that ran to its end), the member record has been written through
  \<^verbatim>\<open>set_member\<close> exactly once, as the last effect, with \<open>in_guild\<close> true. Whenever it
  raises, the record has not been written; a denial is such a path: it reverts the member
  object in place, raises \<^verbatim>\<open>MissingGuildPermissions\<close> and calls nothing.
\<close>

theorem set_member_once_iff_returns:
  "(fst (punish_member e r om member ig um gm is_kick uda cda) = None \<longrightarrow>
      persisted_once (punish_member e r om member ig um gm is_kick uda cda)) \<and>
   (fst (punish_member e r om member ig um gm is_kick uda cda) \<noteq> None \<longrightarrow>
      never_persisted (punish_member e r om member ig um gm is_kick uda cda)) \<and>
   (r_fetch_channel r = Inr ch \<and> lookup_guild e (h_guild_id om) = Some guild \<and>
    get_perms (g_get_my_member guild) = Inr perms \<and>
    denial guild (h_author om) perms member is_kick = Some reason \<longrightarrow>
      punish_member e r om member ig um gm is_kick uda cda =
        (Some (MissingGuildPermissions reason), reverted member, []))"
proof -
  have "settled (punish_member e r om member ig um gm is_kick uda cda)"
    by (rule settled_punish_member)
  then show ?thesis
    by (simp add: settled_def punish_member_def split: if_splits)
qed

theorem set_member_once_iff_returns_witness:
  "fst (punish_member env0 remote_ban_fails msg0 member0 internal_guild0 ban_dm ban_log
          False None None) = None \<and>
   persisted_once (punish_member env0 remote_ban_fails msg0 member0 internal_guild0 ban_dm
                     ban_log False None None) \<and>
   fst (punish_member env_owned remote_ok msg0 member0 internal_guild0 ban_dm ban_log
          False None None) \<noteq> None \<and>
   never_persisted (punish_member env_owned remote_ok msg0 member0 internal_guild0 ban_dm
                      ban_log False None None) \<and>
   r_fetch_channel remote_ok = Inr general \<and>
   lookup_guild env_owned (h_guild_id msg0) = Some (guild0 \<lparr> g_owner_id := 42 \<rparr>) \<and>
   get_perms (g_get_my_member (guild0 \<lparr> g_owner_id := 42 \<rparr>)) = Inr NONE \<and>
   denial (guild0 \<lparr> g_owner_id := 42 \<rparr>) (h_author msg0) NONE member0 False =
     Some (u ''I cannot punish alice(42) because they own this guild. (Lobby)'') \<and>
   punish_member env_owned remote_ok msg0 member0 internal_guild0 ban_dm ban_log False None None =
     (Some (MissingGuildPermissions
              (u ''I cannot punish alice(42) because they own this guild. (Lobby)'')),
      reverted member0, [])"
proof -
  have a: "fst (punish_member env0 remote_ban_fails msg0 member0 internal_guild0 ban_dm ban_log
                  False None None) = None"
    by (simp add: punish_defs Let_def transform_message_def item_of_template_def
        failed_template_def then_do_def substitute_args_def input_defs punish_input_defs)
  have b: "fst (punish_member env_owned remote_ok msg0 member0 internal_guild0 ban_dm ban_log
                  False None None) \<noteq> None"
    by (simp add: punish_defs input_defs punish_input_defs)
  have c: "r_fetch_channel remote_ok = Inr general \<and>
           lookup_guild env_owned (h_guild_id msg0) = Some (guild0 \<lparr> g_owner_id := 42 \<rparr>) \<and>
           get_perms (g_get_my_member (guild0 \<lparr> g_owner_id := 42 \<rparr>)) = Inr NONE \<and>
           denial (guild0 \<lparr> g_owner_id := 42 \<rparr>) (h_author msg0) NONE member0 False =
             Some (u ''I cannot punish alice(42) because they own this guild. (Lobby)'')"
    by (simp add: punish_defs str_int_def input_defs punish_input_defs u_def)
  note returns = set_member_once_iff_returns [of env0 remote_ban_fails msg0 member0
    internal_guild0 ban_dm ban_log False None None general guild0 NONE "[]"]
  note raises = set_member_once_iff_returns [of env_owned remote_ok msg0 member0
    internal_guild0 ban_dm ban_log False None None general "guild0 \<lparr> g_owner_id := 42 \<rparr>" NONE
    "u ''I cannot punish alice(42) because they own this guild. (Lobby)''"]
  from returns a have p: "persisted_once (punish_member env0 remote_ban_fails msg0 member0
      internal_guild0 ban_dm ban_log False None None)"
    by blast
  from raises b have q: "never_persisted (punish_member env_owned remote_ok msg0 member0
      internal_guild0 ban_dm ban_log False None None)"
    by blast
  from raises c have r: "punish_member env_owned remote_ok msg0 member0 internal_guild0 ban_dm
      ban_log False None None =
     (Some (MissingGuildPermissions
              (u ''I cannot punish alice(42) because they own this guild. (Lobby)'')),
      reverted member0, [])"
    by blast
  from a p b q c r show ?thesis by blast
qed

text \<open>
  C5. Claim: when the bot lacks the capability that the punishment needs, or the target
  owns the guild, \<^verbatim>\<open>punish_member\<close> fails with \<^verbatim>\<open>MissingGuildPermissions\<close> and neither
  notifies nor acts. For the missing capability the code does not do this: the bot's
  permissions are \<^verbatim>\<open>Permissions.NONE\<close>, the punishment is a ban of a member who does not
  own the guild, and the code notifies the member, calls the ban, logs and returns.
\<close>

theorem punish_member_bans_without_capability:
  "get_perms (g_get_my_member guild0) = Inr NONE \<and> \<not> has_capability NONE BAN_MEMBERS \<and>
   g_owner_id guild0 \<noteq> member_id member0 \<and>
   punish_member env0 remote_ok msg0 member0 internal_guild0 ban_dm ban_log False None None =
     (None, member0 \<lparr> in_guild := True \<rparr>,
      [User_send 42 ban_dm, Ban 42, Guild_log ban_log, Channel_send 55 ban_log,
       Set_member (member0 \<lparr> in_guild := True \<rparr>)])"
  by (simp add: punish_defs has_capability_def input_defs punish_input_defs)

text \<open>
  C10. When the authority test passes and the private notification fails with an error
  other than \<^verbatim>\<open>InternalServerError\<close>, that error leaves \<^verbatim>\<open>punish_member\<close>. The attempt to
  send the notification is the only effect: no kick or ban, nothing sent to the guild log,
  no write to the member cache, and the member object is as it was.
\<close>

theorem notification_error_propagates:
  assumes "r_fetch_channel r = Inr ch"
    and "lookup_guild e (h_guild_id om) = Some guild"
    and "get_perms (g_get_my_member guild) = Inr perms"
    and "denial guild (h_author om) perms member is_kick = None"
    and "r_user_send r = Some err"
    and "err \<noteq> InternalServerError"
  shows "punish_member e r om member ig um gm is_kick uda cda =
           (Some err, member, [User_send (user_id (h_author om)) um])"
  using assms by (simp add: punish_member_def notify_def)

theorem notification_error_propagates_witness:
  "r_fetch_channel remote_dm_forbidden = Inr general \<and>
   lookup_guild env0 (h_guild_id msg0) = Some guild0 \<and>
   get_perms (g_get_my_member guild0) = Inr NONE \<and>
   denial guild0 (h_author msg0) NONE member0 False = None \<and>
   r_user_send remote_dm_forbidden = Some ForbiddenError \<and>
   ForbiddenError \<noteq> InternalServerError \<and>
   punish_member env0 remote_dm_forbidden msg0 member0 internal_guild0 ban_dm ban_log
     False None None =
     (Some ForbiddenError, member0, [User_send 42 ban_dm])"
proof -
  have a: "r_fetch_channel remote_dm_forbidden = Inr general"
    and b: "lookup_guild env0 (h_guild_id msg0) = Some guild0"
    and c: "get_perms (g_get_my_member guild0) = Inr NONE"
    and d: "denial guild0 (h_author msg0) NONE member0 False = None"
    and f: "r_user_send remote_dm_forbidden = Some ForbiddenError"
    and g: "ForbiddenError \<noteq> InternalServerError"
    by (simp_all add: punish_defs input_defs punish_input_defs)
  show ?thesis
    using a b c d f g
      notification_error_propagates [OF a b c d f g, of internal_guild0 ban_dm ban_log None None]
    by (simp add: input_defs)
qed




subsection \<open>Cleanup sweeper\<close>

lemma and_then_parts:
  "fst (and_then evs res) = fst res"
  "fst (snd (and_then evs res)) = fst (snd res)"
  "snd (snd (and_then evs res)) = evs @ snd (snd res)"
  by (simp_all add: and_then_def split: prod.splits)

lemma delete_message_subset:
  "delete_message p live cid mid = (x, live') \<Longrightarrow> set live' \<subseteq> set live"
  by (auto simp add: delete_message_def message_delete_def split: option.splits if_splits)

text \<open>The sweep creates no message.\<close>

lemma sweep_subset: "set (fst (snd (sweep p chs live ms))) \<subseteq> set live"
proof (induction ms arbitrary: chs live)
  case Nil
  show ?case by simp
next
  case (Cons m ms)
  show ?case
    using Cons.IH delete_message_subset
    by (simp add: Let_def and_then_parts split: option.splits prod.splits) blast
qed

lemma fetch_message_tolerated:
  "tolerated p m \<Longrightarrow>
   fetch_message p live (message_channel_id m) (message_id m) = None \<or>
   fetch_message p live (message_channel_id m) (message_id m) = Some NotFoundError"
  by (auto simp add: tolerated_def fetch_message_def)

lemma fetch_message_absent:
  "deletable p m \<Longrightarrow>
   fetch_message p live (message_channel_id m) (message_id m) = Some NotFoundError \<Longrightarrow>
   (message_channel_id m, message_id m) \<notin> set live"
  by (auto simp add: deletable_def fetch_message_def split: if_splits)

lemma delete_message_tolerated:
  assumes "tolerated p m"
    and "fetch_message p live (message_channel_id m) (message_id m) = None"
  shows "\<exists>live1. delete_message p live (message_channel_id m) (message_id m) = (None, live1) \<and>
           (deletable p m \<longrightarrow> (message_channel_id m, message_id m) \<notin> set live1)"
  using assms
  by (auto simp add: tolerated_def deletable_def fetch_message_def delete_message_def
      message_delete_def split: option.splits if_splits)

lemma swept_step:
  assumes tail: "swept p ms (sweep p chs1 live1 ms)"
    and dup: "is_duplicate m"
    and evs: "filter is_fetch_message evs =
                [Fetch_message (message_channel_id m) (message_id m)]"
    and gone: "deletable p m \<longrightarrow> (message_channel_id m, message_id m) \<notin> set live1"
  shows "swept p (m # ms) (and_then evs (sweep p chs1 live1 ms))"
  using assms sweep_subset [of p chs1 live1 ms]
  by (auto simp add: swept_def and_then_parts)

lemma sweep_tolerated:
  assumes "\<forall>m \<in> set ms. is_duplicate m \<longrightarrow> tolerated p m"
  shows "swept p ms (sweep p chs live ms)"
  using assms
proof (induction ms arbitrary: chs live)
  case Nil
  show ?case by (simp add: swept_def)
next
  case (Cons m ms)
  then have IH: "swept p ms (sweep p chs1 live1 ms)" for chs1 live1
    by simp
  show ?case
  proof (cases "is_duplicate m")
    case False
    with IH [of chs live] show ?thesis by (simp add: swept_def)
  next
    case True
    let ?cid = "message_channel_id m" and ?mid = "message_id m"
    let ?chs = "if ?cid \<in> set chs then chs else ?cid # chs"
    let ?evs = "(if ?cid \<in> set chs then [] else [Fetch_channel ?cid]) @ [Fetch_message ?cid ?mid]"
    from Cons.prems True have tol: "tolerated p m" by simp
    then have ch: "p_fetch_channel p ?cid = None" by (simp add: tolerated_def)
    have evs: "filter is_fetch_message ?evs = [Fetch_message ?cid ?mid]" by simp
    from fetch_message_tolerated [OF tol, of live]
    show ?thesis
    proof
      assume f: "fetch_message p live ?cid ?mid = None"
      from delete_message_tolerated [OF tol f] obtain live1
        where d: "delete_message p live ?cid ?mid = (None, live1)"
          and g: "deletable p m \<longrightarrow> (?cid, ?mid) \<notin> set live1"
        by blast
      have "sweep p chs live (m # ms) =
              and_then (?evs @ [Delete_message ?cid ?mid]) (sweep p ?chs live1 ms)"
        using True ch f d by (simp add: Let_def)
      moreover have "swept p (m # ms)
              (and_then (?evs @ [Delete_message ?cid ?mid]) (sweep p ?chs live1 ms))"
        by (rule swept_step [OF IH True _ g]) simp
      ultimately show ?thesis by simp
    next
      assume f: "fetch_message p live ?cid ?mid = Some NotFoundError"
      have g: "deletable p m \<longrightarrow> (?cid, ?mid) \<notin> set live"
        using fetch_message_absent [OF _ f] by blast
      have "sweep p chs live (m # ms) = and_then ?evs (sweep p ?chs live ms)"
        using True ch f by (simp add: Let_def)
      moreover have "swept p (m # ms) (and_then ?evs (sweep p ?chs live ms))"
        by (rule swept_step [OF IH True evs g])
      ultimately show ?thesis by simp
    qed
  qed
qed

text \<open>
  C9. Claim: the sweep deletes every live flagged message, skips a flagged message that no
  longer exists (not-found on fetch or delete) without an error, and always goes through
  the whole sequence. This fails when the message is gone because its channel is: of
  three flagged messages, the second sits in a deleted channel; resolving that channel
  raises \<^verbatim>\<open>NotFoundError\<close> outside the \<^verbatim>\<open>try\<close>, the sweep ends with that error, and the
  third message, which exists, is never fetched and stays.
\<close>

theorem sweep_aborts_on_missing_channel:
  "delete_member_messages platform_channel_gone live0 member_flagged =
     (Some NotFoundError, [(7, 3)],
      [Fetch_channel 7, Fetch_message 7 1, Delete_message 7 1, Fetch_channel 8]) \<and>
   \<not> swept platform_channel_gone (messages member_flagged)
       (delete_member_messages platform_channel_gone live0 member_flagged)"
  by (simp add: sweep_defs swept_def sweep_input_defs)

text \<open>
  The sweep of a sequence whose first part raises nothing is the sweep of that part
  followed by the sweep of the rest, on the messages that the first part left.
\<close>

lemma and_then_assoc: "and_then evs (and_then t res) = and_then (evs @ t) res"
  by (simp add: and_then_def split: prod.splits)

lemma sweep_append:
  assumes "\<forall>m \<in> set pre. is_duplicate m \<longrightarrow> tolerated p m"
    and "\<forall>c \<in> set chs. p_fetch_channel p c = None"
  shows "\<exists>chs'. (\<forall>c \<in> set chs'. p_fetch_channel p c = None) \<and>
           sweep p chs live (pre @ rest) =
             and_then (snd (snd (sweep p chs live pre)))
               (sweep p chs' (fst (snd (sweep p chs live pre))) rest)"
  using assms
proof (induction pre arbitrary: chs live)
  case Nil
  then show ?case by (auto simp add: and_then_def)
next
  case (Cons m ms)
  then have IH: "\<forall>c \<in> set chs1. p_fetch_channel p c = None \<Longrightarrow>
      \<exists>chs'. (\<forall>c \<in> set chs'. p_fetch_channel p c = None) \<and>
           sweep p chs1 live1 (ms @ rest) =
             and_then (snd (snd (sweep p chs1 live1 ms)))
               (sweep p chs' (fst (snd (sweep p chs1 live1 ms))) rest)" for chs1 live1
    by simp
  show ?case
  proof (cases "is_duplicate m")
    case False
    with IH [OF Cons.prems(2), of live] show ?thesis by simp
  next
    case True
    let ?cid = "message_channel_id m" and ?mid = "message_id m"
    let ?chs = "if ?cid \<in> set chs then chs else ?cid # chs"
    let ?evs = "(if ?cid \<in> set chs then [] else [Fetch_channel ?cid]) @ [Fetch_message ?cid ?mid]"
    from Cons.prems True have tol: "tolerated p m" by simp
    then have ch: "p_fetch_channel p ?cid = None" by (simp add: tolerated_def)
    with Cons.prems(2) have inv: "\<forall>c \<in> set ?chs. p_fetch_channel p c = None" by simp
    have "\<exists>evs live1. \<forall>tl. sweep p chs live (m # tl) = and_then evs (sweep p ?chs live1 tl)"
    proof -
      from fetch_message_tolerated [OF tol, of live] show ?thesis
      proof
        assume f: "fetch_message p live ?cid ?mid = None"
        from delete_message_tolerated [OF tol f] obtain live1
          where d: "delete_message p live ?cid ?mid = (None, live1)" by blast
        have "\<forall>tl. sweep p chs live (m # tl) =
              and_then (?evs @ [Delete_message ?cid ?mid]) (sweep p ?chs live1 tl)"
          using True ch f d by (simp add: Let_def)
        then show ?thesis by blast
      next
        assume f: "fetch_message p live ?cid ?mid = Some NotFoundError"
        have "\<forall>tl. sweep p chs live (m # tl) = and_then ?evs (sweep p ?chs live tl)"
          using True ch f by (simp add: Let_def)
        then show ?thesis by blast
      qed
    qed
    then obtain evs live1
      where s: "\<And>tl. sweep p chs live (m # tl) = and_then evs (sweep p ?chs live1 tl)"
      by blast
    from IH [OF inv, of live1] obtain chs'
      where c: "\<forall>c \<in> set chs'. p_fetch_channel p c = None"
        and e: "sweep p ?chs live1 (ms @ rest) =
             and_then (snd (snd (sweep p ?chs live1 ms)))
               (sweep p chs' (fst (snd (sweep p ?chs live1 ms))) rest)"
      by blast
    have "sweep p chs live ((m # ms) @ rest) =
            and_then (snd (snd (sweep p chs live (m # ms))))
              (sweep p chs' (fst (snd (sweep p chs live (m # ms)))) rest)"
    proof -
      have a: "sweep p chs live ((m # ms) @ rest) = and_then evs (sweep p ?chs live1 (ms @ rest))"
        using s [of "ms @ rest"] by (simp only: append_Cons)
      have b: "sweep p chs live (m # ms) = and_then evs (sweep p ?chs live1 ms)"
        by (rule s)
      show ?thesis
        unfolding a b e by (simp only: and_then_parts and_then_assoc)
    qed
    with c show ?thesis by blast
  qed
qed

text \<open>A fault that is not absorbed ends the sweep at the message it concerns.\<close>

lemma sweep_stops:
  assumes "is_duplicate m"
    and "\<forall>c \<in> set chs. p_fetch_channel p c = None"
    and "stops p live m err"
  shows "fst (sweep p chs live (m # post)) = Some err \<and>
         fst (snd (sweep p chs live (m # post))) = live \<and>
         filter is_fetch_message (snd (snd (sweep p chs live (m # post)))) =
           (if p_fetch_channel p (message_channel_id m) = None
            then [Fetch_message (message_channel_id m) (message_id m)] else [])"
  using assms
  by (auto simp add: stops_def Let_def delete_message_def message_delete_def fetch_message_def
      split: option.splits if_splits)

lemma sweep_stops_after:
  assumes pre: "\<forall>x \<in> set pre. is_duplicate x \<longrightarrow> tolerated p x"
    and dup: "is_duplicate m"
    and stop: "stops p (fst (snd (sweep p [] live pre))) m err"
  shows "fst (sweep p [] live (pre @ m # post)) = Some err \<and>
         fst (snd (sweep p [] live (pre @ m # post))) = fst (snd (sweep p [] live pre)) \<and>
         filter is_fetch_message (snd (snd (sweep p [] live (pre @ m # post)))) =
           map (\<lambda>m. Fetch_message (message_channel_id m) (message_id m))
             (filter is_duplicate pre) @
           (if p_fetch_channel p (message_channel_id m) = None
            then [Fetch_message (message_channel_id m) (message_id m)] else [])"
proof -
  from sweep_append [OF pre, of "[]" live "m # post"] obtain chs'
    where c: "\<forall>c \<in> set chs'. p_fetch_channel p c = None"
      and e: "sweep p [] live (pre @ m # post) =
                and_then (snd (snd (sweep p [] live pre)))
                  (sweep p chs' (fst (snd (sweep p [] live pre))) (m # post))"
    by auto
  have f: "filter is_fetch_message (snd (snd (sweep p [] live pre))) =
             map (\<lambda>m. Fetch_message (message_channel_id m) (message_id m))
               (filter is_duplicate pre)"
    using sweep_tolerated [OF pre, of "[]" live] by (simp add: swept_def)
  show ?thesis
    unfolding e using sweep_stops [OF dup c stop, of post]
    by (simp add: and_then_parts f del: sweep.simps)
qed

text \<open>
  C9 as amended. When, for every flagged message of the member, the channel resolves,
  the fetch of the message fails at most with not-found and its delete at most with
  not-found or forbidden, the sweep returns without an error, tries every flagged message
  in order, and afterwards no flagged message that the platform lets it fetch and delete
  exists: a message that is not found, on the fetch or on the delete, is skipped and the
  sweep goes on. Any other failure ends the sweep: when the flagged messages before some
  flagged message are as above and, for that message, the channel does not resolve, or
  its fetch fails otherwise than with not-found, or its delete fails otherwise than with
  not-found or forbidden, the sweep raises that error there; the messages that exist are
  those that the sweep of the earlier messages left, and no later message is fetched.
\<close>

theorem sweep_processes_whole_sequence:
  "((\<forall>m \<in> set (messages member). is_duplicate m \<longrightarrow> tolerated p m) \<longrightarrow>
      fst (delete_member_messages p live member) = None \<and>
      filter is_fetch_message (snd (snd (delete_member_messages p live member))) =
        map (\<lambda>m. Fetch_message (message_channel_id m) (message_id m))
          (filter is_duplicate (messages member)) \<and>
      (\<forall>m \<in> set (messages member). is_duplicate m \<and> deletable p m \<longrightarrow>
         (message_channel_id m, message_id m) \<notin>
           set (fst (snd (delete_member_messages p live member))))) \<and>
   (messages member = pre @ m # post \<and>
    (\<forall>x \<in> set pre. is_duplicate x \<longrightarrow> tolerated p x) \<and> is_duplicate m \<and>
    stops p (fst (snd (delete_member_messages p live (member \<lparr> messages := pre \<rparr>)))) m err \<longrightarrow>
      fst (delete_member_messages p live member) = Some err \<and>
      fst (snd (delete_member_messages p live member)) =
        fst (snd (delete_member_messages p live (member \<lparr> messages := pre \<rparr>))) \<and>
      filter is_fetch_message (snd (snd (delete_member_messages p live member))) =
        map (\<lambda>m. Fetch_message (message_channel_id m) (message_id m))
          (filter is_duplicate pre) @
        (if p_fetch_channel p (message_channel_id m) = None
         then [Fetch_message (message_channel_id m) (message_id m)] else []))"
proof (intro conjI impI)
  assume a: "\<forall>m \<in> set (messages member). is_duplicate m \<longrightarrow> tolerated p m"
  from sweep_tolerated [OF a, of "[]" live]
  show "fst (delete_member_messages p live member) = None"
    and "filter is_fetch_message (snd (snd (delete_member_messages p live member))) =
        map (\<lambda>m. Fetch_message (message_channel_id m) (message_id m))
          (filter is_duplicate (messages member))"
    and "\<forall>m \<in> set (messages member). is_duplicate m \<and> deletable p m \<longrightarrow>
         (message_channel_id m, message_id m) \<notin>
           set (fst (snd (delete_member_messages p live member)))"
    by (simp_all add: swept_def delete_member_messages_def)
next
  assume b: "messages member = pre @ m # post \<and>
    (\<forall>x \<in> set pre. is_duplicate x \<longrightarrow> tolerated p x) \<and> is_duplicate m \<and>
    stops p (fst (snd (delete_member_messages p live (member \<lparr> messages := pre \<rparr>)))) m err"
  then have pre: "\<forall>x \<in> set pre. is_duplicate x \<longrightarrow> tolerated p x"
    and dup: "is_duplicate m"
    and stop: "stops p (fst (snd (sweep p [] live pre))) m err"
    and ms: "messages member = pre @ m # post"
    by (simp_all add: delete_member_messages_def)
  from sweep_stops_after [OF pre dup stop, of post]
  show "fst (delete_member_messages p live member) = Some err"
    and "fst (snd (delete_member_messages p live member)) =
        fst (snd (delete_member_messages p live (member \<lparr> messages := pre \<rparr>)))"
    and "filter is_fetch_message (snd (snd (delete_member_messages p live member))) =
        map (\<lambda>m. Fetch_message (message_channel_id m) (message_id m))
          (filter is_duplicate pre) @
        (if p_fetch_channel p (message_channel_id m) = None
         then [Fetch_message (message_channel_id m) (message_id m)] else [])"
    by (simp_all add: delete_member_messages_def ms)
qed

theorem sweep_processes_whole_sequence_witness:
  "messages member_flagged = [flagged_message 7 1, flagged_message 8 2, flagged_message 7 3] \<and>
   is_duplicate (flagged_message 7 1) \<and> tolerated platform_ok (flagged_message 7 1) \<and>
   is_duplicate (flagged_message 8 2) \<and> tolerated platform_ok (flagged_message 8 2) \<and>
   is_duplicate (flagged_message 7 3) \<and> tolerated platform_ok (flagged_message 7 3) \<and>
   deletable platform_ok (flagged_message 7 1) \<and> deletable platform_ok (flagged_message 7 3) \<and>
   delete_member_messages platform_ok live0 member_flagged =
     (None, [],
      [Fetch_channel 7, Fetch_message 7 1, Delete_message 7 1,
       Fetch_channel 8, Fetch_message 8 2,
       Fetch_message 7 3, Delete_message 7 3]) \<and>
   fst (delete_member_messages platform_ok live0 member_flagged) = None \<and>
   filter is_fetch_message (snd (snd (delete_member_messages platform_ok live0 member_flagged))) =
     [Fetch_message 7 1, Fetch_message 8 2, Fetch_message 7 3] \<and>
   (7, 1) \<notin> set (fst (snd (delete_member_messages platform_ok live0 member_flagged))) \<and>
   (7, 3) \<notin> set (fst (snd (delete_member_messages platform_ok live0 member_flagged))) \<and>
   messages member_flagged = [flagged_message 7 1] @ flagged_message 8 2 # [flagged_message 7 3] \<and>
   tolerated platform_channel_gone (flagged_message 7 1) \<and>
   p_fetch_channel platform_channel_gone 8 = Some NotFoundError \<and>
   stops platform_channel_gone [(7, 3)] (flagged_message 8 2) NotFoundError \<and>
   fst (delete_member_messages platform_channel_gone live0 member_flagged) = Some NotFoundError \<and>
   fst (snd (delete_member_messages platform_channel_gone live0 member_flagged)) = [(7, 3)] \<and>
   filter is_fetch_message
     (snd (snd (delete_member_messages platform_channel_gone live0 member_flagged))) =
     [Fetch_message 7 1] \<and>
   tolerated platform_fetch_forbidden (flagged_message 7 1) \<and>
   p_fetch_error platform_fetch_forbidden 8 2 = Some ForbiddenError \<and>
   stops platform_fetch_forbidden [(7, 3)] (flagged_message 8 2) ForbiddenError \<and>
   fst (delete_member_messages platform_fetch_forbidden live0 member_flagged) =
     Some ForbiddenError \<and>
   fst (snd (delete_member_messages platform_fetch_forbidden live0 member_flagged)) = [(7, 3)] \<and>
   filter is_fetch_message
     (snd (snd (delete_member_messages platform_fetch_forbidden live0 member_flagged))) =
     [Fetch_message 7 1, Fetch_message 8 2] \<and>
   messages member_flagged = [] @ flagged_message 7 1 # [flagged_message 8 2, flagged_message 7 3] \<and>
   p_delete_error platform_delete_fails 7 1 = Some InternalServerError \<and>
   stops platform_delete_fails live0 (flagged_message 7 1) InternalServerError \<and>
   fst (delete_member_messages platform_delete_fails live0 member_flagged) =
     Some InternalServerError \<and>
   fst (snd (delete_member_messages platform_delete_fails live0 member_flagged)) = live0 \<and>
   filter is_fetch_message
     (snd (snd (delete_member_messages platform_delete_fails live0 member_flagged))) =
     [Fetch_message 7 1]"
proof -
  let ?m1 = "flagged_message 7 1" and ?m2 = "flagged_message 8 2" and ?m3 = "flagged_message 7 3"
  have a: "\<forall>m \<in> set (messages member_flagged). is_duplicate m \<longrightarrow> tolerated platform_ok m"
    by (simp add: tolerated_def sweep_input_defs)
  have b: "\<forall>m \<in> set (messages member_flagged). is_duplicate m \<and> deletable platform_ok m"
    by (simp add: deletable_def sweep_input_defs)
  have c: "delete_member_messages platform_ok live0 member_flagged =
     (None, [],
      [Fetch_channel 7, Fetch_message 7 1, Delete_message 7 1,
       Fetch_channel 8, Fetch_message 8 2,
       Fetch_message 7 3, Delete_message 7 3])"
    by (simp add: sweep_defs sweep_input_defs)
  have d: "map (\<lambda>m. Fetch_message (message_channel_id m) (message_id m))
             (filter is_duplicate (messages member_flagged)) =
           [Fetch_message 7 1, Fetch_message 8 2, Fetch_message 7 3]"
    by (simp add: sweep_input_defs)
  have e: "?m1 \<in> set (messages member_flagged)" "?m3 \<in> set (messages member_flagged)"
    "message_channel_id ?m1 = 7" "message_id ?m1 = 1"
    "message_channel_id ?m3 = 7" "message_id ?m3 = 3"
    "message_channel_id ?m2 = 8" "message_id ?m2 = 2"
    by (simp_all add: sweep_input_defs)
  note t = sweep_processes_whole_sequence [of member_flagged platform_ok live0 "[]" ?m1 "[]" LogicError,
      THEN conjunct1, THEN mp, OF a]
  from t have t1: "fst (delete_member_messages platform_ok live0 member_flagged) = None"
    by blast
  from t d have t2: "filter is_fetch_message
      (snd (snd (delete_member_messages platform_ok live0 member_flagged))) =
     [Fetch_message 7 1, Fetch_message 8 2, Fetch_message 7 3]"
    by simp
  from t b e have t3:
    "(7, 1) \<notin> set (fst (snd (delete_member_messages platform_ok live0 member_flagged)))"
    "(7, 3) \<notin> set (fst (snd (delete_member_messages platform_ok live0 member_flagged)))"
    by metis+
  have f: "messages member_flagged = [?m1, ?m2, ?m3]"
    by (simp add: member_flagged_def)
  have g: "is_duplicate ?m1" "tolerated platform_ok ?m1"
    "is_duplicate ?m2" "tolerated platform_ok ?m2"
    "is_duplicate ?m3" "tolerated platform_ok ?m3"
    "deletable platform_ok ?m1" "deletable platform_ok ?m3"
    by (simp_all add: tolerated_def deletable_def flagged_message_def platform_ok_def)
  have split1: "messages member_flagged = [?m1] @ ?m2 # [?m3]"
    and split0: "messages member_flagged = [] @ ?m1 # [?m2, ?m3]"
    by (simp_all add: member_flagged_def)
  have pre1: "delete_member_messages p live0 (member_flagged \<lparr> messages := [?m1] \<rparr>) =
                (None, [(7, 3)], [Fetch_channel 7, Fetch_message 7 1, Delete_message 7 1])"
    if "p = platform_channel_gone \<or> p = platform_fetch_forbidden" for p
    using that by (auto simp add: sweep_defs sweep_input_defs)
  have pre0: "delete_member_messages platform_delete_fails live0
                (member_flagged \<lparr> messages := [] \<rparr>) = (None, live0, [])"
    by (simp add: sweep_defs)
  have h1: "tolerated platform_channel_gone ?m1"
    "p_fetch_channel platform_channel_gone 8 = Some NotFoundError"
    "stops platform_channel_gone [(7, 3)] ?m2 NotFoundError"
    "p_fetch_channel platform_channel_gone (message_channel_id ?m2) \<noteq> None"
    by (simp_all add: tolerated_def stops_def sweep_input_defs)
  have h2: "tolerated platform_fetch_forbidden ?m1"
    "p_fetch_error platform_fetch_forbidden 8 2 = Some ForbiddenError"
    "stops platform_fetch_forbidden [(7, 3)] ?m2 ForbiddenError"
    "p_fetch_channel platform_fetch_forbidden (message_channel_id ?m2) = None"
    by (simp_all add: tolerated_def stops_def fetch_message_def sweep_input_defs)
  have h3: "p_delete_error platform_delete_fails 7 1 = Some InternalServerError"
    "stops platform_delete_fails live0 ?m1 InternalServerError"
    "p_fetch_channel platform_delete_fails (message_channel_id ?m1) = None"
    by (simp_all add: stops_def fetch_message_def sweep_input_defs)
  have u1: "fst (delete_member_messages platform_channel_gone live0 member_flagged) =
              Some NotFoundError \<and>
            fst (snd (delete_member_messages platform_channel_gone live0 member_flagged)) =
              [(7, 3)] \<and>
            filter is_fetch_message
              (snd (snd (delete_member_messages platform_channel_gone live0 member_flagged))) =
              [Fetch_message 7 1]"
    using sweep_processes_whole_sequence [of member_flagged platform_channel_gone live0
        "[?m1]" ?m2 "[?m3]" NotFoundError, THEN conjunct2]
      split1 g(1,3) h1 e pre1 [of platform_channel_gone]
    by simp
  have u2: "fst (delete_member_messages platform_fetch_forbidden live0 member_flagged) =
              Some ForbiddenError \<and>
            fst (snd (delete_member_messages platform_fetch_forbidden live0 member_flagged)) =
              [(7, 3)] \<and>
            filter is_fetch_message
              (snd (snd (delete_member_messages platform_fetch_forbidden live0 member_flagged))) =
              [Fetch_message 7 1, Fetch_message 8 2]"
    using sweep_processes_whole_sequence [of member_flagged platform_fetch_forbidden live0
        "[?m1]" ?m2 "[?m3]" ForbiddenError, THEN conjunct2]
      split1 g(1,3) h2 e pre1 [of platform_fetch_forbidden]
    by simp
  have u3: "fst (delete_member_messages platform_delete_fails live0 member_flagged) =
              Some InternalServerError \<and>
            fst (snd (delete_member_messages platform_delete_fails live0 member_flagged)) =
              live0 \<and>
            filter is_fetch_message
              (snd (snd (delete_member_messages platform_delete_fails live0 member_flagged))) =
              [Fetch_message 7 1]"
    using sweep_processes_whole_sequence [of member_flagged platform_delete_fails live0
        "[]" ?m1 "[?m2, ?m3]" InternalServerError, THEN conjunct2]
      split0 g(1) h3 e pre0
    by simp
  from f g c t1 t2 t3 split1 split0 h1(1-3) h2(1-3) h3(1,2) u1 u2 u3 show ?thesis by blast
qed

end
